theory Spec2Isabelle
  imports Main
begin

section \<open>JavaScript values and the operations the handlers use\<close>

text \<open>
  The server (an Express application) and the chat component work on values that come out
  of \<^verbatim>\<open>JSON.parse\<close>: request bodies, database rows, the bodies of upstream
  responses. \<open>JUndefined\<close> is what reading a missing property yields. A string is the
  list of the bytes of its UTF-8 encoding. A number is kept as the text that the
  language's number-to-string conversion gives it (\<open>0\<close>, \<open>-1.5\<close>, \<open>1e+21\<close>,
  \<open>NaN\<close>, \<open>Infinity\<close>): the handlers never compute with the numbers of a body, they
  only test them for truth and print them. An object is the list of its members in the
  order the engine enumerates them, every key once.
\<close>

datatype jsval =
    JUndefined
  | JNull
  | JBool bool
  | JNum string
  | JStr string
  | JArr "jsval list"
  | JObj "(string \<times> jsval) list"

text \<open>
  What is thrown. \<open>TypeError site\<close> is raised by the engine itself when \<open>site\<close> is
  read from \<open>null\<close> or \<open>undefined\<close>, called without being a function, or converted
  without having a primitive value. \<open>Error code msg\<close> is any other error object:
  \<open>msg\<close> is its \<open>message\<close>, \<open>code\<close> its \<open>code\<close> property when that is a string.
\<close>

datatype exn =
    TypeError string
  | Error "string option" string

text \<open>
  The parts of the engine that the source relies on and that are not written here:
  the comparison \<open>v > 0\<close> and the property key of \<open>v - 1\<close> for a \<open>length\<close> member
  that an object of a body carries itself (both convert \<open>v\<close> to a number first and may
  throw), and the message text the engine gives its own type errors.
\<close>

record runtime =
  gt_zero :: "jsval \<Rightarrow> exn + bool"
  minus_one_key :: "jsval \<Rightarrow> exn + string"
  type_error_message :: "string \<Rightarrow> string"

definition and_then :: "exn + 'a \<Rightarrow> ('a \<Rightarrow> exn + 'b) \<Rightarrow> exn + 'b" where
  "and_then r f = (case r of Inl e \<Rightarrow> Inl e | Inr v \<Rightarrow> f v)"

fun traverse :: "('a \<Rightarrow> exn + 'b) \<Rightarrow> 'a list \<Rightarrow> exn + 'b list" where
  "traverse f [] = Inr []"
| "traverse f (x # xs) =
     (case f x of
        Inl e \<Rightarrow> Inl e
      | Inr y \<Rightarrow> (case traverse f xs of Inl e \<Rightarrow> Inl e | Inr ys \<Rightarrow> Inr (y # ys)))"

fun truthy :: "jsval \<Rightarrow> bool" where
  "truthy JUndefined = False"
| "truthy JNull = False"
| "truthy (JBool b) = b"
| "truthy (JNum t) = (t \<noteq> ''0'' \<and> t \<noteq> ''NaN'')"
| "truthy (JStr s) = (s \<noteq> [])"
| "truthy (JArr xs) = True"
| "truthy (JObj kvs) = True"

fun nullish :: "jsval \<Rightarrow> bool" where
  "nullish JUndefined = True"
| "nullish JNull = True"
| "nullish v = False"

text \<open>
  \<open>prop_get v k\<close> is the read \<^verbatim>\<open>v.k\<close> for the property names of this program other
  than \<open>length\<close> and \<open>map\<close>: \<open>question\<close>, \<open>context\<close>, \<open>region\<close>, \<open>message\<close>
  and so on. None of them is defined on a prototype, so the read finds an own member of an
  object or nothing.
\<close>

fun prop_get :: "jsval \<Rightarrow> string \<Rightarrow> exn + jsval" where
  "prop_get JUndefined k = Inl (TypeError k)"
| "prop_get JNull k = Inl (TypeError k)"
| "prop_get (JObj kvs) k = Inr (case map_of kvs k of None \<Rightarrow> JUndefined | Some v \<Rightarrow> v)"
| "prop_get v k = Inr JUndefined"

text \<open>\<^verbatim>\<open>v.length > 0\<close>.\<close>

fun length_gt_zero :: "runtime \<Rightarrow> jsval \<Rightarrow> exn + bool" where
  "length_gt_zero rt JUndefined = Inl (TypeError ''length'')"
| "length_gt_zero rt JNull = Inl (TypeError ''length'')"
| "length_gt_zero rt (JArr xs) = Inr (xs \<noteq> [])"
| "length_gt_zero rt (JStr s) = Inr (s \<noteq> [])"
| "length_gt_zero rt (JObj kvs) =
     (case map_of kvs ''length'' of None \<Rightarrow> Inr False | Some l \<Rightarrow> gt_zero rt l)"
| "length_gt_zero rt v = Inr False"

text \<open>
  \<^verbatim>\<open>v[v.length - 1]\<close>. The last unit of a string is a string of one unit (here its
  last byte: the program only reads a property of it, which a string does not have).
\<close>

fun last_item :: "runtime \<Rightarrow> jsval \<Rightarrow> exn + jsval" where
  "last_item rt JUndefined = Inl (TypeError ''length'')"
| "last_item rt JNull = Inl (TypeError ''length'')"
| "last_item rt (JArr xs) = Inr (if xs = [] then JUndefined else last xs)"
| "last_item rt (JStr s) = Inr (if s = [] then JUndefined else JStr [last s])"
| "last_item rt (JObj kvs) =
     and_then
       (minus_one_key rt (case map_of kvs ''length'' of None \<Rightarrow> JUndefined | Some l \<Rightarrow> l))
       (\<lambda>k. prop_get (JObj kvs) k)"
| "last_item rt v = Inr JUndefined"

text \<open>
  \<^verbatim>\<open>v.map(f)\<close>: only an array has the method; a \<open>map\<close> member of an object of a body
  is never a function.
\<close>

fun array_map :: "(jsval \<Rightarrow> exn + 'a) \<Rightarrow> jsval \<Rightarrow> exn + 'a list" where
  "array_map f (JArr xs) = traverse f xs"
| "array_map f v = Inl (TypeError ''map'')"

text \<open>\<^verbatim>\<open>parts.join(sep)\<close> on an array of strings.\<close>

fun join_with :: "string \<Rightarrow> string list \<Rightarrow> string" where
  "join_with sep [] = []"
| "join_with sep [x] = x"
| "join_with sep (x # y # ys) = x @ sep @ join_with sep (y # ys)"

text \<open>
  The conversion of a template literal, \<^verbatim>\<open>`${v}`\<close>. An array prints its elements
  separated by commas, \<open>null\<close> and \<open>undefined\<close> as nothing. An object prints as
  \<open>[object Object]\<close>, unless a member named \<open>toString\<close> hides the inherited method: a
  member of a body is not a function, and the conversion throws.
\<close>

fun to_string :: "jsval \<Rightarrow> exn + string"
  and join_items :: "jsval list \<Rightarrow> exn + string" where
  "to_string JUndefined = Inr ''undefined''"
| "to_string JNull = Inr ''null''"
| "to_string (JBool b) = Inr (if b then ''true'' else ''false'')"
| "to_string (JNum t) = Inr t"
| "to_string (JStr s) = Inr s"
| "to_string (JArr xs) = join_items xs"
| "to_string (JObj kvs) =
     (if ''toString'' \<in> set (map fst kvs) then Inl (TypeError ''toString'')
      else Inr ''[object Object]'')"
| "join_items [] = Inr []"
| "join_items [x] = (if nullish x then Inr [] else to_string x)"
| "join_items (x # y # ys) =
     and_then (if nullish x then Inr [] else to_string x)
       (\<lambda>s. and_then (join_items (y # ys)) (\<lambda>rest. Inr (s @ '','' @ rest)))"

text \<open>\<^verbatim>\<open>JSON.stringify(v)\<close> with one argument.\<close>

definition hex_digit :: "nat \<Rightarrow> char" where
  "hex_digit n = ''0123456789abcdef'' ! (n mod 16)"

definition json_quote_char :: "char \<Rightarrow> string" where
  "json_quote_char c =
     (if c = CHR 0x08 then [CHR 0x5C, CHR ''b'']
      else if c = CHR 0x09 then [CHR 0x5C, CHR ''t'']
      else if c = CHR 0x0A then [CHR 0x5C, CHR ''n'']
      else if c = CHR 0x0C then [CHR 0x5C, CHR ''f'']
      else if c = CHR 0x0D then [CHR 0x5C, CHR ''r'']
      else if c = CHR 0x22 then [CHR 0x5C, CHR 0x22]
      else if c = CHR 0x5C then [CHR 0x5C, CHR 0x5C]
      else if (of_char c :: nat) < 32 then
        [CHR 0x5C, CHR ''u'', CHR ''0'', CHR ''0'',
         hex_digit ((of_char c :: nat) div 16), hex_digit (of_char c)]
      else [c])"

definition json_quote :: "string \<Rightarrow> string" where
  "json_quote s = [CHR 0x22] @ concat (map json_quote_char s) @ [CHR 0x22]"

fun serialize :: "jsval \<Rightarrow> string" where
  "serialize JUndefined = ''null''"
| "serialize JNull = ''null''"
| "serialize (JBool b) = (if b then ''true'' else ''false'')"
| "serialize (JNum t) =
     (if t = ''NaN'' \<or> t = ''Infinity'' \<or> t = ''-Infinity'' then ''null'' else t)"
| "serialize (JStr s) = json_quote s"
| "serialize (JArr xs) = ''['' @ join_with '','' (map serialize xs) @ '']''"
| "serialize (JObj kvs) =
     ''{'' @
     join_with '',''
       (map (\<lambda>kv. json_quote (fst kv) @ '':'' @ serialize (snd kv))
          (filter (\<lambda>kv. snd kv \<noteq> JUndefined) kvs)) @
     ''}''"

definition json_stringify :: "jsval \<Rightarrow> jsval" where
  "json_stringify v = (if v = JUndefined then JUndefined else JStr (serialize v))"

section \<open>The server: shared types\<close>

text \<open>
  A response of a handler: \<^verbatim>\<open>res.status(n).json(body)\<close>. An \<^verbatim>\<open>await\<close> of a call
  to the outside (the database, bcrypt, the upstream service) either yields a value or
  throws what the call was rejected with: the outside is a function to \<open>exn + 'a\<close>.
\<close>

datatype http_response = Response (res_status: nat) (res_body: jsval)

definition err_message :: "runtime \<Rightarrow> exn \<Rightarrow> string" where
  "err_message rt e = (case e of TypeError site \<Rightarrow> type_error_message rt site | Error c m \<Rightarrow> m)"

definition err_code :: "exn \<Rightarrow> string option" where
  "err_code e = (case e of TypeError site \<Rightarrow> None | Error c m \<Rightarrow> c)"

section \<open>The chat proxy: \<^verbatim>\<open>app.post('/api/chat')\<close>\<close>

text \<open>
  The text literals of the handler, as the bytes of their UTF-8 encoding:
  \<open>msg_question_required\<close> is the message of the 400 response,
  \<open>region_unspecified\<close> the default region, \<open>upstream_failed_prefix\<close> the start of
  the error thrown on a response that is not ok, the four headings those of the sections
  of a reply, \<open>fallback_before\<close> and \<open>fallback_after\<close> the sentence around the question
  when a report yields no section, \<open>msg_no_report\<close> the reply when there is no report,
  \<open>chat_error_prefix\<close> the start of the message of the 500 response.
\<close>

definition msg_question_required :: string where
  "msg_question_required =
     [CHR 0xE9, CHR 0x97, CHR 0xAE, CHR 0xE9, CHR 0xA2, CHR 0x98, CHR 0xE5, CHR 0x86,
      CHR 0x85, CHR 0xE5, CHR 0xAE, CHR 0xB9, CHR 0xE4, CHR 0xB8, CHR 0x8D, CHR 0xE8,
      CHR 0x83, CHR 0xBD, CHR 0xE4, CHR 0xB8, CHR 0xBA, CHR 0xE7, CHR 0xA9, CHR 0xBA]"

definition region_unspecified :: string where
  "region_unspecified =
     [CHR 0xE6, CHR 0x9C, CHR 0xAA, CHR 0xE6, CHR 0x8C, CHR 0x87, CHR 0xE5, CHR 0xAE,
      CHR 0x9A]"

definition upstream_failed_prefix :: string where
  "upstream_failed_prefix =
     ''LangGraph'' @ [CHR 0xE6, CHR 0x9C, CHR 0x8D, CHR 0xE5, CHR 0x8A, CHR 0xA1,
      CHR 0xE8, CHR 0xB0, CHR 0x83, CHR 0xE7, CHR 0x94, CHR 0xA8, CHR 0xE5, CHR 0xA4,
      CHR 0xB1, CHR 0xE8, CHR 0xB4, CHR 0xA5] @ '': ''"

definition alerts_heading :: string where
  "alerts_heading =
     ''**'' @ [CHR 0xE8, CHR 0xAD, CHR 0xA6, CHR 0xE6, CHR 0x8A, CHR 0xA5, CHR 0xE4,
      CHR 0xBF, CHR 0xA1, CHR 0xE6, CHR 0x81, CHR 0xAF] @ '':**\<newline>''"

definition recommendations_heading :: string where
  "recommendations_heading =
     ''**'' @ [CHR 0xE5, CHR 0xBB, CHR 0xBA, CHR 0xE8, CHR 0xAE, CHR 0xAE, CHR 0xE6,
      CHR 0x8E, CHR 0xAA, CHR 0xE6, CHR 0x96, CHR 0xBD] @ '':**\<newline>''"

definition analysis_heading :: string where
  "analysis_heading =
     ''**'' @ [CHR 0xE5, CHR 0x88, CHR 0x86, CHR 0xE6, CHR 0x9E, CHR 0x90, CHR 0xE7,
      CHR 0xBB, CHR 0x93, CHR 0xE6, CHR 0x9E, CHR 0x9C] @ '':** ''"

definition summary_heading :: string where
  "summary_heading =
     ''**'' @ [CHR 0xE6, CHR 0x80, CHR 0xBB, CHR 0xE7, CHR 0xBB, CHR 0x93] @ '':** ''"

definition fallback_before :: string where
  "fallback_before =
     [CHR 0xE5, CHR 0x9F, CHR 0xBA, CHR 0xE4, CHR 0xBA, CHR 0x8E, CHR 0xE6, CHR 0x82,
      CHR 0xA8, CHR 0xE7, CHR 0x9A, CHR 0x84, CHR 0xE9, CHR 0x97, CHR 0xAE, CHR 0xE9,
      CHR 0xA2, CHR 0x98, CHR 0x22]"

definition fallback_after :: string where
  "fallback_after =
     [CHR 0x22, CHR 0xEF, CHR 0xBC, CHR 0x8C, CHR 0xE6, CHR 0x88, CHR 0x91, CHR 0xE5,
      CHR 0xB7, CHR 0xB2, CHR 0xE7, CHR 0xBB, CHR 0x8F, CHR 0xE9, CHR 0x80, CHR 0x9A,
      CHR 0xE8, CHR 0xBF, CHR 0x87, CHR 0xE5, CHR 0xBA, CHR 0x94, CHR 0xE6, CHR 0x80,
      CHR 0xA5, CHR 0xE7, CHR 0xAE, CHR 0xA1, CHR 0xE7, CHR 0x90, CHR 0x86, CHR 0xE7,
      CHR 0xB3, CHR 0xBB, CHR 0xE7, CHR 0xBB, CHR 0x9F, CHR 0xE8, CHR 0xBF, CHR 0x9B,
      CHR 0xE8, CHR 0xA1, CHR 0x8C, CHR 0xE4, CHR 0xBA, CHR 0x86, CHR 0xE5, CHR 0x88,
      CHR 0x86, CHR 0xE6, CHR 0x9E, CHR 0x90, CHR 0xE3, CHR 0x80, CHR 0x82, CHR 0xE7,
      CHR 0xB3, CHR 0xBB, CHR 0xE7, CHR 0xBB, CHR 0x9F, CHR 0xE8, CHR 0xBF, CHR 0x94,
      CHR 0xE5, CHR 0x9B, CHR 0x9E, CHR 0xE4, CHR 0xBA, CHR 0x86, CHR 0xE8, CHR 0xAF,
      CHR 0xA6, CHR 0xE7, CHR 0xBB, CHR 0x86, CHR 0xE7, CHR 0x9A, CHR 0x84, CHR 0xE5,
      CHR 0xA4, CHR 0x84, CHR 0xE7, CHR 0x90, CHR 0x86, CHR 0xE7, CHR 0xBB, CHR 0x93,
      CHR 0xE6, CHR 0x9E, CHR 0x9C, CHR 0xEF, CHR 0xBC, CHR 0x8C, CHR 0xE5, CHR 0x8C,
      CHR 0x85, CHR 0xE5, CHR 0x90, CHR 0xAB, CHR 0xE4, CHR 0xBA, CHR 0x86, CHR 0xE5,
      CHR 0xA4, CHR 0x9A, CHR 0xE4, CHR 0xB8, CHR 0xAA, CHR 0xE6, CHR 0x96, CHR 0xB9,
      CHR 0xE9, CHR 0x9D, CHR 0xA2, CHR 0xE7, CHR 0x9A, CHR 0x84, CHR 0xE4, CHR 0xBF,
      CHR 0xA1, CHR 0xE6, CHR 0x81, CHR 0xAF, CHR 0xE3, CHR 0x80, CHR 0x82, CHR 0xE5,
      CHR 0xA6, CHR 0x82, CHR 0xE9, CHR 0x9C, CHR 0x80, CHR 0xE8, CHR 0xA6, CHR 0x81,
      CHR 0xE6, CHR 0x9B, CHR 0xB4, CHR 0xE5, CHR 0x85, CHR 0xB7, CHR 0xE4, CHR 0xBD,
      CHR 0x93, CHR 0xE7, CHR 0x9A, CHR 0x84, CHR 0xE5, CHR 0x88, CHR 0x86, CHR 0xE6,
      CHR 0x9E, CHR 0x90, CHR 0xEF, CHR 0xBC, CHR 0x8C, CHR 0xE8, CHR 0xAF, CHR 0xB7,
      CHR 0xE6, CHR 0x8F, CHR 0x90, CHR 0xE4, CHR 0xBE, CHR 0x9B, CHR 0xE6, CHR 0x9B,
      CHR 0xB4, CHR 0xE5, CHR 0xA4, CHR 0x9A, CHR 0xE8, CHR 0x83, CHR 0x8C, CHR 0xE6,
      CHR 0x99, CHR 0xAF, CHR 0xE4, CHR 0xBF, CHR 0xA1, CHR 0xE6, CHR 0x81, CHR 0xAF,
      CHR 0xE3, CHR 0x80, CHR 0x82]"

definition msg_no_report :: string where
  "msg_no_report =
     [CHR 0xE6, CHR 0x8A, CHR 0xB1, CHR 0xE6, CHR 0xAD, CHR 0x89, CHR 0xEF, CHR 0xBC,
      CHR 0x8C, CHR 0xE5, CHR 0xBA, CHR 0x94, CHR 0xE6, CHR 0x80, CHR 0xA5, CHR 0xE7,
      CHR 0xAE, CHR 0xA1, CHR 0xE7, CHR 0x90, CHR 0x86, CHR 0xE7, CHR 0xB3, CHR 0xBB,
      CHR 0xE7, CHR 0xBB, CHR 0x9F, CHR 0xE5, CHR 0xA4, CHR 0x84, CHR 0xE7, CHR 0x90,
      CHR 0x86, CHR 0xE6, CHR 0x82, CHR 0xA8, CHR 0xE7, CHR 0x9A, CHR 0x84, CHR 0xE8,
      CHR 0xAF, CHR 0xB7, CHR 0xE6, CHR 0xB1, CHR 0x82, CHR 0xE6, CHR 0x97, CHR 0xB6,
      CHR 0xE5, CHR 0x87, CHR 0xBA, CHR 0xE7, CHR 0x8E, CHR 0xB0, CHR 0xE4, CHR 0xBA,
      CHR 0x86, CHR 0xE9, CHR 0x97, CHR 0xAE, CHR 0xE9, CHR 0xA2, CHR 0x98, CHR 0xE3,
      CHR 0x80, CHR 0x82, CHR 0xE8, CHR 0xAF, CHR 0xB7, CHR 0xE7, CHR 0xA8, CHR 0x8D,
      CHR 0xE5, CHR 0x90, CHR 0x8E, CHR 0xE9, CHR 0x87, CHR 0x8D, CHR 0xE8, CHR 0xAF,
      CHR 0x95, CHR 0xE6, CHR 0x88, CHR 0x96, CHR 0xE8, CHR 0x81, CHR 0x94, CHR 0xE7,
      CHR 0xB3, CHR 0xBB, CHR 0xE7, CHR 0xB3, CHR 0xBB, CHR 0xE7, CHR 0xBB, CHR 0x9F,
      CHR 0xE7, CHR 0xAE, CHR 0xA1, CHR 0xE7, CHR 0x90, CHR 0x86, CHR 0xE5, CHR 0x91,
      CHR 0x98, CHR 0xE3, CHR 0x80, CHR 0x82]"

definition chat_error_prefix :: string where
  "chat_error_prefix =
     [CHR 0xE4, CHR 0xB8, CHR 0x8E, CHR 0xE5, CHR 0xBA, CHR 0x94, CHR 0xE6, CHR 0x80,
      CHR 0xA5, CHR 0xE7, CHR 0xAE, CHR 0xA1, CHR 0xE7, CHR 0x90, CHR 0x86, CHR 0xE7,
      CHR 0xB3, CHR 0xBB, CHR 0xE7, CHR 0xBB, CHR 0x9F, CHR 0xE9, CHR 0x80, CHR 0x9A,
      CHR 0xE4, CHR 0xBF, CHR 0xA1, CHR 0xE6, CHR 0x97, CHR 0xB6, CHR 0xE5, CHR 0x8F,
      CHR 0x91, CHR 0xE7, CHR 0x94, CHR 0x9F, CHR 0xE9, CHR 0x94, CHR 0x99, CHR 0xE8,
      CHR 0xAF, CHR 0xAF] @ '': ''"

definition langgraphUrl :: string where
  "langgraphUrl = ''http://10.0.3.4:2024/process_emergency_event''"

text \<open>
  A call of \<^verbatim>\<open>fetch(url, {method, headers, body})\<close>: \<open>call_body\<close> is the value
  handed to \<^verbatim>\<open>JSON.stringify\<close> for the body, \<open>None\<close> when the call has no body.
  The response gives \<open>ok\<close>, and what \<^verbatim>\<open>await response.text()\<close> and
  \<^verbatim>\<open>await response.json()\<close> yield or throw.
\<close>

record fetch_call =
  call_url :: string
  call_method :: string
  call_content_type :: string
  call_body :: "jsval option"

record fetch_response =
  resp_ok :: bool
  resp_text :: "exn + string"
  resp_json :: "exn + jsval"

type_synonym fetch = "fetch_call \<Rightarrow> exn + fetch_response"

text \<open>The object literal \<open>input_data\<close>, its members evaluated in the order written.\<close>

definition dataset_entry :: "jsval \<Rightarrow> exn + jsval" where
  "dataset_entry d =
     and_then (prop_get d ''name'') (\<lambda>name.
     and_then (prop_get d ''source'') (\<lambda>source.
     Inr (JObj [(''name'', name), (''source'', source)])))"

definition model_info_of :: "jsval \<Rightarrow> exn + jsval" where
  "model_info_of model =
     (if truthy model then
        and_then (prop_get model ''name'') (\<lambda>name.
        and_then (prop_get model ''type'') (\<lambda>ty.
        Inr (JObj [(''name'', name), (''type'', if truthy ty then ty else JStr ''unknown'')])))
      else Inr JNull)"

definition datasets_of :: "runtime \<Rightarrow> jsval \<Rightarrow> exn + jsval" where
  "datasets_of rt datasets =
     (if truthy datasets then
        and_then (length_gt_zero rt datasets) (\<lambda>nonempty.
        if nonempty then and_then (array_map dataset_entry datasets) (\<lambda>ds. Inr (JArr ds))
        else Inr (JArr []))
      else Inr (JArr []))"

definition build_input_data :: "runtime \<Rightarrow> string \<Rightarrow> jsval \<Rightarrow> jsval \<Rightarrow> exn + jsval" where
  "build_input_data rt now question context =
     and_then (prop_get context ''region'') (\<lambda>region.
     and_then (prop_get context ''model'') (\<lambda>model.
     and_then (model_info_of model) (\<lambda>model_info.
     and_then (prop_get context ''datasets'') (\<lambda>datasets.
     and_then (datasets_of rt datasets) (\<lambda>ds.
     Inr (JObj
       [(''user_question'', question),
        (''region'', if truthy region then region else JStr region_unspecified),
        (''model_info'', model_info),
        (''datasets'', ds),
        (''emergency_type'', JStr ''general_inquiry''),
        (''severity_level'', JStr ''low''),
        (''timestamp'', JStr now)]))))))"

definition langgraph_call :: "jsval \<Rightarrow> fetch_call" where
  "langgraph_call input_data =
     \<lparr>call_url = langgraphUrl, call_method = ''POST'',
      call_content_type = ''application/json'',
      call_body = Some (JObj [(''input_data'', input_data)])\<rparr>"

text \<open>
  The reply built from \<open>final_report\<close>. \<open>replyParts\<close> is the list the four steps
  push to, each step given the list so far.
\<close>

definition bullet :: "jsval \<Rightarrow> exn + string" where
  "bullet v = and_then (to_string v) (\<lambda>s. Inr (''- '' @ s))"

definition alert_line :: "jsval \<Rightarrow> exn + string" where
  "alert_line alert =
     and_then (prop_get alert ''message'') (\<lambda>message.
     if truthy message then bullet message
     else and_then (prop_get alert ''description'') (\<lambda>description.
       if truthy description then bullet description
       else bullet (json_stringify alert)))"

definition recommendation_line :: "jsval \<Rightarrow> exn + string" where
  "recommendation_line rec =
     and_then (prop_get rec ''action'') (\<lambda>action.
     if truthy action then bullet action
     else and_then (prop_get rec ''description'') (\<lambda>description.
       if truthy description then bullet description
       else bullet (json_stringify rec)))"

definition push_alerts :: "runtime \<Rightarrow> jsval \<Rightarrow> string list \<Rightarrow> exn + string list" where
  "push_alerts rt report replyParts =
     and_then (prop_get report ''alerts'') (\<lambda>alerts.
     if truthy alerts then
       and_then (length_gt_zero rt alerts) (\<lambda>nonempty.
       if nonempty then
         and_then (array_map alert_line alerts) (\<lambda>lines.
         Inr (replyParts @ [alerts_heading @ join_with ''\<newline>'' lines]))
       else Inr replyParts)
     else Inr replyParts)"

definition push_recommendations :: "runtime \<Rightarrow> jsval \<Rightarrow> string list \<Rightarrow> exn + string list" where
  "push_recommendations rt report replyParts =
     and_then (prop_get report ''recommendations'') (\<lambda>recommendations.
     if truthy recommendations then
       and_then (length_gt_zero rt recommendations) (\<lambda>nonempty.
       if nonempty then
         and_then (array_map recommendation_line recommendations) (\<lambda>lines.
         Inr (replyParts @ [recommendations_heading @ join_with ''\<newline>'' lines]))
       else Inr replyParts)
     else Inr replyParts)"

definition push_log :: "runtime \<Rightarrow> jsval \<Rightarrow> string list \<Rightarrow> exn + string list" where
  "push_log rt report replyParts =
     and_then (prop_get report ''processing_log'') (\<lambda>processing_log.
     if truthy processing_log then
       and_then (length_gt_zero rt processing_log) (\<lambda>nonempty.
       if nonempty then
         and_then (last_item rt processing_log) (\<lambda>lastLog.
         and_then (prop_get lastLog ''message'') (\<lambda>message.
         if truthy message then
           and_then (to_string message) (\<lambda>s. Inr (replyParts @ [analysis_heading @ s]))
         else Inr replyParts))
       else Inr replyParts)
     else Inr replyParts)"

definition push_summary :: "jsval \<Rightarrow> string list \<Rightarrow> exn + string list" where
  "push_summary report replyParts =
     and_then (prop_get report ''summary'') (\<lambda>summary.
     if truthy summary then
       and_then (to_string summary) (\<lambda>s. Inr (replyParts @ [summary_heading @ s]))
     else Inr replyParts)"

definition extract_reply :: "runtime \<Rightarrow> jsval \<Rightarrow> jsval \<Rightarrow> exn + string" where
  "extract_reply rt question langgraphResult =
     and_then (prop_get langgraphResult ''final_report'') (\<lambda>report.
     if truthy report then
       and_then (push_alerts rt report []) (\<lambda>parts1.
       and_then (push_recommendations rt report parts1) (\<lambda>parts2.
       and_then (push_log rt report parts2) (\<lambda>parts3.
       and_then (push_summary report parts3) (\<lambda>replyParts.
       if length replyParts = 0 then
         and_then (to_string question) (\<lambda>q. Inr (fallback_before @ q @ fallback_after))
       else Inr (join_with ''\<newline>\<newline>'' replyParts)))))
     else Inr msg_no_report)"

text \<open>
  The \<^verbatim>\<open>try\<close> block after the call of \<^verbatim>\<open>fetch\<close>, and the \<^verbatim>\<open>catch\<close>
  block. The two \<^verbatim>\<open>console.log\<close> blocks print values that come from a body and
  cannot throw; they are left out.
\<close>

definition after_fetch :: "runtime \<Rightarrow> jsval \<Rightarrow> fetch_response \<Rightarrow> exn + string" where
  "after_fetch rt question langgraphResponse =
     (if \<not> resp_ok langgraphResponse then
        and_then (resp_text langgraphResponse) (\<lambda>errorText.
        Inl (Error None (upstream_failed_prefix @ errorText)))
      else
        and_then (resp_json langgraphResponse) (\<lambda>langgraphResult.
        extract_reply rt question langgraphResult))"

definition chat_catch :: "runtime \<Rightarrow> exn \<Rightarrow> http_response" where
  "chat_catch rt err =
     Response 500 (JObj [(''message'', JStr (chat_error_prefix @ err_message rt err))])"

text \<open>
  The handler. \<open>body\<close> is \<^verbatim>\<open>req.body\<close>, \<open>now\<close> the text of
  \<^verbatim>\<open>new Date().toISOString()\<close>. The result is the list of the calls of
  \<^verbatim>\<open>fetch\<close> the handler made, and its response; \<open>Inl\<close> when the handler throws
  outside its \<^verbatim>\<open>try\<close> block and sends nothing.
\<close>

definition chat_handler ::
  "runtime \<Rightarrow> string \<Rightarrow> fetch \<Rightarrow> jsval \<Rightarrow> fetch_call list \<times> (exn + http_response)" where
  "chat_handler rt now fetch body =
     (case and_then (prop_get body ''question'') (\<lambda>question.
           and_then (prop_get body ''context'') (\<lambda>context. Inr (question, context))) of
        Inl e \<Rightarrow> ([], Inl e)
      | Inr (question, context) \<Rightarrow>
          if \<not> truthy question then
            ([], Inr (Response 400 (JObj [(''message'', JStr msg_question_required)])))
          else
            (case build_input_data rt now question context of
               Inl err \<Rightarrow> ([], Inr (chat_catch rt err))
             | Inr input_data \<Rightarrow>
                 ([langgraph_call input_data],
                  Inr (case and_then (fetch (langgraph_call input_data))
                              (after_fetch rt question) of
                         Inl err \<Rightarrow> chat_catch rt err
                       | Inr aiReply \<Rightarrow> Response 200 (JObj [(''reply'', JStr aiReply)])))))"

section \<open>Registration and login: \<^verbatim>\<open>app.post('/api/register')\<close>, \<^verbatim>\<open>app.post('/api/login')\<close>\<close>

text \<open>
  The text literals of the two handlers: the message of the 400 response of both, of the
  201, 409 and 500 responses of the registration, of the 401 and 200 responses of the
  login.
\<close>

definition msg_credentials_required :: string where
  "msg_credentials_required =
     [CHR 0xE7, CHR 0x94, CHR 0xA8, CHR 0xE6, CHR 0x88, CHR 0xB7, CHR 0xE5, CHR 0x90,
      CHR 0x8D, CHR 0xE5, CHR 0x92, CHR 0x8C, CHR 0xE5, CHR 0xAF, CHR 0x86, CHR 0xE7,
      CHR 0xA0, CHR 0x81, CHR 0xE4, CHR 0xB8, CHR 0x8D, CHR 0xE8, CHR 0x83, CHR 0xBD,
      CHR 0xE4, CHR 0xB8, CHR 0xBA, CHR 0xE7, CHR 0xA9, CHR 0xBA]"

definition msg_register_ok :: string where
  "msg_register_ok =
     [CHR 0xE6, CHR 0xB3, CHR 0xA8, CHR 0xE5, CHR 0x86, CHR 0x8C, CHR 0xE6, CHR 0x88,
      CHR 0x90, CHR 0xE5, CHR 0x8A, CHR 0x9F]"

definition msg_register_duplicate :: string where
  "msg_register_duplicate =
     [CHR 0xE6, CHR 0xB3, CHR 0xA8, CHR 0xE5, CHR 0x86, CHR 0x8C, CHR 0xE5, CHR 0xA4,
      CHR 0xB1, CHR 0xE8, CHR 0xB4, CHR 0xA5, CHR 0xEF, CHR 0xBC, CHR 0x9A, CHR 0xE7,
      CHR 0x94, CHR 0xA8, CHR 0xE6, CHR 0x88, CHR 0xB7, CHR 0xE5, CHR 0x90, CHR 0x8D,
      CHR 0xE5, CHR 0xB7, CHR 0xB2, CHR 0xE5, CHR 0xAD, CHR 0x98, CHR 0xE5, CHR 0x9C,
      CHR 0xA8]"

definition msg_server_error :: string where
  "msg_server_error =
     [CHR 0xE6, CHR 0x9C, CHR 0x8D, CHR 0xE5, CHR 0x8A, CHR 0xA1, CHR 0xE5, CHR 0x99,
      CHR 0xA8, CHR 0xE9, CHR 0x94, CHR 0x99, CHR 0xE8, CHR 0xAF, CHR 0xAF]"



text \<open>
  The outside of the two handlers. \<open>bcryptjs\<close> rejects with a plain error that has a
  message and no \<open>code\<close>: \<open>Inl msg\<close>. \<^verbatim>\<open>pool.query(text, values)\<close> yields the
  rows of its result or throws. The handlers return the queries they sent with their
  response.
\<close>

record bcrypt =
  genSalt :: "nat \<Rightarrow> string + string"
  hash :: "jsval \<Rightarrow> string \<Rightarrow> string + string"
  compare :: "jsval \<Rightarrow> jsval \<Rightarrow> string + bool"

type_synonym pool = "string \<Rightarrow> jsval list \<Rightarrow> exn + jsval list"

definition await_bcrypt :: "string + 'a \<Rightarrow> exn + 'a" where
  "await_bcrypt r = (case r of Inl msg \<Rightarrow> Inl (Error None msg) | Inr v \<Rightarrow> Inr v)"

definition first_row :: "jsval list \<Rightarrow> jsval" where
  "first_row rows = (case rows of [] \<Rightarrow> JUndefined | row # _ \<Rightarrow> row)"

definition js_not :: "jsval \<Rightarrow> bool" where
  "js_not v = (\<not> truthy v)"

definition credentials :: "jsval \<Rightarrow> exn + jsval \<times> jsval" where
  "credentials body =
     and_then (prop_get body ''username'') (\<lambda>username.
     and_then (prop_get body ''password'') (\<lambda>password. Inr (username, password)))"

definition insert_user_sql :: string where
  "insert_user_sql =
     ''INSERT INTO users (username, password_hash) VALUES ($1, $2) RETURNING id, username''"


definition register_catch :: "exn \<Rightarrow> http_response" where
  "register_catch err =
     (if err_code err = Some ''23505'' then
        Response 409 (JObj [(''message'', JStr msg_register_duplicate)])
      else Response 500 (JObj [(''message'', JStr msg_server_error)]))"

definition register_handler ::
  "bcrypt \<Rightarrow> pool \<Rightarrow> jsval \<Rightarrow> (string \<times> jsval list) list \<times> (exn + http_response)" where
  "register_handler bc query body =
     (case credentials body of
        Inl e \<Rightarrow> ([], Inl e)
      | Inr (username, password) \<Rightarrow>
          if js_not username \<or> js_not password then
            ([], Inr (Response 400 (JObj [(''message'', JStr msg_credentials_required)])))
          else
            (case and_then (await_bcrypt (genSalt bc 10)) (\<lambda>salt.
                  await_bcrypt (hash bc password salt)) of
               Inl err \<Rightarrow> ([], Inr (register_catch err))
             | Inr passwordHash \<Rightarrow>
                 ([(insert_user_sql, [username, JStr passwordHash])],
                  Inr (case query insert_user_sql [username, JStr passwordHash] of
                         Inl err \<Rightarrow> register_catch err
                       | Inr rows \<Rightarrow>
                           Response 201
                             (JObj [(''message'', JStr msg_register_ok),
                                    (''user'', first_row rows)])))))"



section \<open>The health check: \<^verbatim>\<open>app.get('/api/langgraph/health')\<close>\<close>

definition healthUrl :: string where
  "healthUrl = ''http://10.0.3.4/system_health''"

definition health_error_prefix :: string where
  "health_error_prefix =
     ''LangGraph'' @ [CHR 0xE5, CHR 0x81, CHR 0xA5, CHR 0xE5, CHR 0xBA, CHR 0xB7, CHR 0xE6,
      CHR 0xA3, CHR 0x80, CHR 0xE6, CHR 0x9F, CHR 0xA5, CHR 0xE5, CHR 0xA4, CHR 0xB1,
      CHR 0xE8, CHR 0xB4, CHR 0xA5] @ '': ''"

definition health_call :: fetch_call where
  "health_call =
     \<lparr>call_url = healthUrl, call_method = ''GET'',
      call_content_type = ''application/json'', call_body = None\<rparr>"

definition health_handler :: "runtime \<Rightarrow> fetch \<Rightarrow> fetch_call list \<times> http_response" where
  "health_handler rt fetch =
     ([health_call],
      (case and_then (fetch health_call) (\<lambda>healthResponse.
              if \<not> resp_ok healthResponse then
                and_then (resp_text healthResponse) (\<lambda>errorText.
                Inl (Error None (''Health check failed: '' @ errorText)))
              else resp_json healthResponse) of
         Inl err \<Rightarrow>
           Response 500
             (JObj [(''success'', JBool False),
                    (''message'', JStr (health_error_prefix @ err_message rt err)),
                    (''langgraph_status'', JNull)])
       | Inr healthResult \<Rightarrow>
           Response 200
             (JObj [(''success'', JBool True), (''langgraph_status'', healthResult)])))"

text \<open>
  The host and the port of an \<open>http\<close> URL with no user name: the authority is what
  stands between \<open>http://\<close> and the next slash, the port what follows its colon, 80
  when it has none.
\<close>

definition url_authority :: "string \<Rightarrow> string" where
  "url_authority u = takeWhile (\<lambda>c. c \<noteq> CHR ''/'') (drop (length ''http://'') u)"

definition url_host :: "string \<Rightarrow> string" where
  "url_host u = takeWhile (\<lambda>c. c \<noteq> CHR '':'') (url_authority u)"

definition url_port :: "string \<Rightarrow> string" where
  "url_port u =
     (case dropWhile (\<lambda>c. c \<noteq> CHR '':'') (url_authority u) of
        [] \<Rightarrow> ''80''
      | c # p \<Rightarrow> if p = [] then ''80'' else p)"

section \<open>The chat component: \<^verbatim>\<open>InteractiveAIChat.vue\<close>\<close>

text \<open>
  The literals of the component: the first message of the list, the default text of a
  failed exchange, and the start of the message shown when the exchange throws.
\<close>

definition greeting :: string where
  "greeting =
     [CHR 0xE6, CHR 0x82, CHR 0xA8, CHR 0xE5, CHR 0xA5, CHR 0xBD, CHR 0xEF, CHR 0xBC,
      CHR 0x81, CHR 0xE6, CHR 0x88, CHR 0x91, CHR 0xE6, CHR 0x98, CHR 0xAF, CHR 0xE6,
      CHR 0x99, CHR 0xBA, CHR 0xE6, CHR 0x9E, CHR 0xA2] @ ''AI'' @ [CHR 0xE5, CHR 0x88,
      CHR 0x86, CHR 0xE6, CHR 0x9E, CHR 0x90, CHR 0xE5, CHR 0xB8, CHR 0x88, CHR 0xE3,
      CHR 0x80, CHR 0x82, CHR 0xE6, CHR 0x82, CHR 0xA8, CHR 0xE5, CHR 0x8F, CHR 0xAF,
      CHR 0xE4, CHR 0xBB, CHR 0xA5, CHR 0xE5, CHR 0x90, CHR 0x91, CHR 0xE6, CHR 0x88,
      CHR 0x91, CHR 0xE6, CHR 0x8F, CHR 0x90, CHR 0xE9, CHR 0x97, CHR 0xAE, CHR 0xE5,
      CHR 0x85, CHR 0xB3, CHR 0xE4, CHR 0xBA, CHR 0x8E, CHR 0xE5, CHR 0xBD, CHR 0x93,
      CHR 0xE5, CHR 0x89, CHR 0x8D, CHR 0xE7, CHR 0x81, CHR 0xBE, CHR 0xE5, CHR 0xAE,
      CHR 0xB3, CHR 0xE6, CHR 0x83, CHR 0x85, CHR 0xE5, CHR 0x86, CHR 0xB5, CHR 0xE3,
      CHR 0x80, CHR 0x81, CHR 0xE6, CHR 0x95, CHR 0xB0, CHR 0xE6, CHR 0x8D, CHR 0xAE,
      CHR 0xE6, CHR 0xBA, CHR 0x90, CHR 0xE6, CHR 0x88, CHR 0x96, CHR 0xE6, CHR 0xA8,
      CHR 0xA1, CHR 0xE5, CHR 0x9E, CHR 0x8B, CHR 0xE5, CHR 0x88, CHR 0x86, CHR 0xE6,
      CHR 0x9E, CHR 0x90, CHR 0xE7, CHR 0x9A, CHR 0x84, CHR 0xE4, CHR 0xBB, CHR 0xBB,
      CHR 0xE4, CHR 0xBD, CHR 0x95, CHR 0xE9, CHR 0x97, CHR 0xAE, CHR 0xE9, CHR 0xA2,
      CHR 0x98, CHR 0xE3, CHR 0x80, CHR 0x82]"

definition msg_comm_failed :: string where
  "msg_comm_failed =
     [CHR 0xE4, CHR 0xB8, CHR 0x8E] @ ''AI'' @ [CHR 0xE6, CHR 0x9C, CHR 0x8D, CHR 0xE5,
      CHR 0x8A, CHR 0xA1, CHR 0xE9, CHR 0x80, CHR 0x9A, CHR 0xE4, CHR 0xBF, CHR 0xA1,
      CHR 0xE5, CHR 0xA4, CHR 0xB1, CHR 0xE8, CHR 0xB4, CHR 0xA5]"

definition apology_prefix :: string where
  "apology_prefix =
     [CHR 0xE6, CHR 0x8A, CHR 0xB1, CHR 0xE6, CHR 0xAD, CHR 0x89, CHR 0xEF, CHR 0xBC,
      CHR 0x8C, CHR 0xE6, CHR 0x88, CHR 0x91, CHR 0xE9, CHR 0x81, CHR 0x87, CHR 0xE5,
      CHR 0x88, CHR 0xB0, CHR 0xE4, CHR 0xBA, CHR 0x86, CHR 0xE4, CHR 0xB8, CHR 0x80,
      CHR 0xE4, CHR 0xBA, CHR 0x9B, CHR 0xE9, CHR 0xBA, CHR 0xBB, CHR 0xE7, CHR 0x83,
      CHR 0xA6, CHR 0xEF, CHR 0xBC, CHR 0x8C, CHR 0xE6, CHR 0x9A, CHR 0x82, CHR 0xE6,
      CHR 0x97, CHR 0xB6, CHR 0xE6, CHR 0x97, CHR 0xA0, CHR 0xE6, CHR 0xB3, CHR 0x95,
      CHR 0xE5, CHR 0x9B, CHR 0x9E, CHR 0xE7, CHR 0xAD, CHR 0x94, CHR 0xE3, CHR 0x80,
      CHR 0x82, CHR 0xE9, CHR 0x94, CHR 0x99, CHR 0xE8, CHR 0xAF, CHR 0xAF, CHR 0xE4,
      CHR 0xBF, CHR 0xA1, CHR 0xE6, CHR 0x81, CHR 0xAF] @ '': ''"
record message =
  sender :: string
  msg_text :: jsval

record props =
  selectedSubModel :: jsval
  selectedRegion :: jsval
  drivingDatasets :: jsval

record chat_component =
  userInput :: string
  isTyping :: bool
  isCheckingHealth :: bool
  messages :: "message list"

definition data :: chat_component where
  "data =
     \<lparr>userInput = [], isTyping = False, isCheckingHealth = False,
      messages = [\<lparr>sender = ''ai'', msg_text = JStr greeting\<rparr>]\<rparr>"

definition payload_dataset :: "jsval \<Rightarrow> exn + jsval" where
  "payload_dataset d =
     and_then (prop_get d ''name'') (\<lambda>name.
     and_then (prop_get d ''source'') (\<lambda>source.
     Inr (JObj [(''name'', name), (''source'', source)])))"

definition requestPayload :: "props \<Rightarrow> string \<Rightarrow> exn + jsval" where
  "requestPayload p userMessage =
     and_then (array_map payload_dataset (drivingDatasets p)) (\<lambda>datasets.
     Inr (JObj
       [(''question'', JStr userMessage),
        (''context'',
         JObj [(''region'', selectedRegion p), (''model'', selectedSubModel p),
               (''datasets'', JArr datasets)])]))"

text \<open>
  The \<^verbatim>\<open>try\<close> block of \<open>sendMessage\<close> up to the value of \<^verbatim>\<open>data.reply\<close>:
  \<open>Inl\<close> is what the block throws.
\<close>

definition ask_backend :: "fetch \<Rightarrow> props \<Rightarrow> string \<Rightarrow> exn + jsval" where
  "ask_backend fetch p userMessage =
     and_then (requestPayload p userMessage) (\<lambda>payload.
     and_then
       (fetch \<lparr>call_url = ''/api/chat'', call_method = ''POST'',
               call_content_type = ''application/json'', call_body = Some payload\<rparr>)
       (\<lambda>response.
     if \<not> resp_ok response then
       and_then (resp_json response) (\<lambda>errorData.
       and_then (prop_get errorData ''message'') (\<lambda>m.
       if truthy m then and_then (to_string m) (\<lambda>s. Inl (Error None s))
       else Inl (Error None msg_comm_failed)))
     else
       and_then (resp_json response) (\<lambda>d. prop_get d ''reply'')))"

text \<open>
  \<^verbatim>\<open>s.trim()\<close> removes the white space and the line terminators of the language from
  both ends of a string. \<open>white_space\<close> lists them in UTF-8: tab, line feed, vertical tab,
  form feed, carriage return, space, U+00A0, U+1680, U+2000 to U+200A, U+2028, U+2029,
  U+202F, U+205F, U+3000 and U+FEFF. \<open>strip\<close> removes from the start of a string every
  leading occurrence of one of the given byte sequences.
\<close>

definition white_space :: "string list" where
  "white_space =
     [[CHR 0x09], [CHR 0x0A], [CHR 0x0B], [CHR 0x0C], [CHR 0x0D], [CHR 0x20],
      [CHR 0xC2, CHR 0xA0], [CHR 0xE1, CHR 0x9A, CHR 0x80],
      [CHR 0xE2, CHR 0x80, CHR 0x80], [CHR 0xE2, CHR 0x80, CHR 0x81],
      [CHR 0xE2, CHR 0x80, CHR 0x82], [CHR 0xE2, CHR 0x80, CHR 0x83],
      [CHR 0xE2, CHR 0x80, CHR 0x84], [CHR 0xE2, CHR 0x80, CHR 0x85],
      [CHR 0xE2, CHR 0x80, CHR 0x86], [CHR 0xE2, CHR 0x80, CHR 0x87],
      [CHR 0xE2, CHR 0x80, CHR 0x88], [CHR 0xE2, CHR 0x80, CHR 0x89],
      [CHR 0xE2, CHR 0x80, CHR 0x8A], [CHR 0xE2, CHR 0x80, CHR 0xA8],
      [CHR 0xE2, CHR 0x80, CHR 0xA9], [CHR 0xE2, CHR 0x80, CHR 0xAF],
      [CHR 0xE2, CHR 0x81, CHR 0x9F], [CHR 0xE3, CHR 0x80, CHR 0x80],
      [CHR 0xEF, CHR 0xBB, CHR 0xBF]]"

function strip :: "string list \<Rightarrow> string \<Rightarrow> string" where
  "strip pats s =
     (case find (\<lambda>w. w \<noteq> [] \<and> take (length w) s = w) pats of
        None \<Rightarrow> s
      | Some w \<Rightarrow> strip pats (drop (length w) s))"
  by pat_completeness auto
termination
proof (relation "measure (\<lambda>(pats, s). length s)")
  show "wf (measure (\<lambda>(pats, s). length s))" by simp
next
  fix pats :: "string list" and s w :: string
  assume "find (\<lambda>w. w \<noteq> [] \<and> take (length w) s = w) pats = Some w"
  then have "w \<noteq> []" and "take (length w) s = w"
    by (auto simp: find_Some_iff)
  then have "s \<noteq> []" by auto
  with \<open>w \<noteq> []\<close> show "((pats, drop (length w) s), (pats, s)) \<in> measure (\<lambda>(pats, s). length s)"
    by simp
qed

declare strip.simps [simp del]

definition trim :: "string \<Rightarrow> string" where
  "trim s = rev (strip (map rev white_space) (rev (strip white_space s)))"

text \<open>
  One call of \<open>sendMessage\<close>, run from its start to its end with nothing else touching
  the component in between. The field \<open>msg_text\<close> of a message is its \<open>text\<close>.
  Scrolling the list changes no field and is left out.
\<close>

definition sendMessage ::
  "runtime \<Rightarrow> fetch \<Rightarrow> props \<Rightarrow> chat_component \<Rightarrow> chat_component" where
  "sendMessage rt fetch p this =
     (let userMessage = trim (userInput this) in
      if userMessage = [] \<or> isTyping this then this
      else
        let pushed = this
              \<lparr>messages := messages this @ [\<lparr>sender = ''user'', msg_text = JStr userMessage\<rparr>],
               userInput := [], isTyping := True\<rparr>;
            answered =
              (case ask_backend fetch p userMessage of
                 Inr reply \<Rightarrow>
                   pushed\<lparr>messages := messages pushed @ [\<lparr>sender = ''ai'', msg_text = reply\<rparr>]\<rparr>
               | Inl error \<Rightarrow>
                   pushed\<lparr>messages := messages pushed @
                     [\<lparr>sender = ''ai'',
                       msg_text = JStr (apology_prefix @ err_message rt error)\<rparr>]\<rparr>)
        in answered\<lparr>isTyping := False\<rparr>)"

section \<open>The reply in the words of the specification\<close>

text \<open>
  The specification describes the reply as the sections that are present and non-empty,
  in a fixed order, joined by blank lines, and a fallback sentence when there is none.
  It is written here from the report alone, for the reports of the documented shape:
  \<open>alerts\<close>, \<open>recommendations\<close> and \<open>processing_log\<close> are arrays or absent.
  \<open>field\<close> is a member of an object, \<open>undefined\<close> when there is none; \<open>items\<close>
  the entries of an array, none for any other value. The text of an entry of a list is
  its member \<open>key\<close> (\<open>message\<close> for an alert, \<open>action\<close> for a recommendation) when
  that is not empty, else its \<open>description\<close> when that is not empty, else the entry
  itself as JSON. \<open>shown\<close> is a value as text. \<open>section_of\<close> is a section that is
  there or not; \<open>compose_reply\<close> joins the sections. The handler's \<open>extract_reply\<close> is
  compared with \<open>report_reply\<close> below.
\<close>

definition field :: "jsval \<Rightarrow> string \<Rightarrow> jsval" where
  "field v k =
     (case v of
        JObj kvs \<Rightarrow> (case map_of kvs k of None \<Rightarrow> JUndefined | Some x \<Rightarrow> x)
      | _ \<Rightarrow> JUndefined)"

definition items :: "jsval \<Rightarrow> jsval list" where
  "items v = (case v of JArr xs \<Rightarrow> xs | _ \<Rightarrow> [])"

definition entry_text :: "string \<Rightarrow> jsval \<Rightarrow> jsval" where
  "entry_text key entry =
     (if truthy (field entry key) then field entry key
      else if truthy (field entry ''description'') then field entry ''description''
      else JStr (serialize entry))"

definition shown :: "jsval \<Rightarrow> string" where
  "shown v = (case to_string v of Inl e \<Rightarrow> [] | Inr s \<Rightarrow> s)"

definition bullet_list :: "string \<Rightarrow> jsval list \<Rightarrow> string" where
  "bullet_list key entries =
     join_with ''\<newline>'' (map (\<lambda>entry. ''- '' @ shown (entry_text key entry)) entries)"

definition last_message :: "jsval list \<Rightarrow> jsval" where
  "last_message log = (if log = [] then JUndefined else field (last log) ''message'')"

definition section_of :: "bool \<Rightarrow> string \<Rightarrow> string list" where
  "section_of present txt = (if present then [txt] else [])"

definition compose_reply :: "string \<Rightarrow> string list \<Rightarrow> string" where
  "compose_reply fallback sections =
     (if sections = [] then fallback else join_with ''\<newline>\<newline>'' sections)"

definition report_reply :: "string \<Rightarrow> jsval \<Rightarrow> string" where
  "report_reply qtext report =
     compose_reply (fallback_before @ qtext @ fallback_after)
       (section_of (items (field report ''alerts'') \<noteq> [])
          (alerts_heading @ bullet_list ''message'' (items (field report ''alerts'')))
        @ section_of (items (field report ''recommendations'') \<noteq> [])
          (recommendations_heading
             @ bullet_list ''action'' (items (field report ''recommendations'')))
        @ section_of (truthy (last_message (items (field report ''processing_log''))))
          (analysis_heading @ shown (last_message (items (field report ''processing_log''))))
        @ section_of (truthy (field report ''summary''))
          (summary_heading @ shown (field report ''summary'')))"

text \<open>
  The reports this covers. A list member is an array or is not there (or is empty in
  another way: \<open>null\<close>, \<open>false\<close>, \<open>0\<close>, the empty string); no entry of \<open>alerts\<close> or
  \<open>recommendations\<close> is \<open>null\<close>, nor is the last entry of \<open>processing_log\<close>; and
  every value that is printed has a text (\<open>printable\<close>: the only values without one
  are objects with a member named \<open>toString\<close>, and arrays that hold such an object).
\<close>

definition printable :: "jsval \<Rightarrow> bool" where
  "printable v = (case to_string v of Inl e \<Rightarrow> False | Inr s \<Rightarrow> True)"

definition list_or_empty :: "jsval \<Rightarrow> bool" where
  "list_or_empty v = (case v of JArr xs \<Rightarrow> True | _ \<Rightarrow> \<not> truthy v)"

definition entries_ok :: "string \<Rightarrow> jsval list \<Rightarrow> bool" where
  "entries_ok key entries =
     list_all (\<lambda>entry. \<not> nullish entry \<and> printable (entry_text key entry)) entries"

definition well_formed_report :: "jsval \<Rightarrow> bool" where
  "well_formed_report report =
     (list_or_empty (field report ''alerts'')
      \<and> entries_ok ''message'' (items (field report ''alerts''))
      \<and> list_or_empty (field report ''recommendations'')
      \<and> entries_ok ''action'' (items (field report ''recommendations''))
      \<and> list_or_empty (field report ''processing_log'')
      \<and> (items (field report ''processing_log'') = []
           \<or> \<not> nullish (last (items (field report ''processing_log''))))
      \<and> printable (last_message (items (field report ''processing_log'')))
      \<and> printable (field report ''summary''))"

section \<open>The model gateway: \<open>invoke_many\<close>\<close>

text \<open>
  Modelled from the spec: \<open>invoke_many\<close>, the parallel invocation of the model gateway,
  is described by the specification and its code is not among the sources. The
  specification says that it dispatches all requests concurrently and returns one result
  per request, preserving the request order positionally regardless of completion order.
  Dispatching opens one empty slot per request; the invocations then complete one at a
  time in an order the scheduler chooses, \<open>order\<close>, each completion storing the result
  of its request in the slot of that request; the call returns the slots once every one
  of them is filled, and does not return before.
\<close>

definition dispatch :: "'q list \<Rightarrow> 'r option list" where
  "dispatch requests = replicate (length requests) None"

definition complete :: "('q \<Rightarrow> 'r) \<Rightarrow> 'q list \<Rightarrow> 'r option list \<Rightarrow> nat \<Rightarrow> 'r option list" where
  "complete invoke requests slots i =
     (if i < length requests then slots[i := Some (invoke (requests ! i))] else slots)"

definition invoke_many :: "('q \<Rightarrow> 'r) \<Rightarrow> 'q list \<Rightarrow> nat list \<Rightarrow> 'r list option" where
  "invoke_many invoke requests order =
     (let slots = foldl (complete invoke requests) (dispatch requests) order
      in if list_all (\<lambda>s. s \<noteq> None) slots then Some (map the slots) else None)"

section \<open>Properties of the chat proxy\<close>

lemma and_then_simps:
  "and_then (Inl e) f = Inl e"
  "and_then (Inr v) f = f v"
  by (simp_all add: and_then_def)

lemma prop_get_not_nullish: "prop_get v k = Inr x \<Longrightarrow> \<not> nullish v"
  by (cases v) simp_all

lemma prop_get_defined: "\<not> nullish v \<Longrightarrow> \<exists>x. prop_get v k = Inr x"
  by (cases v) simp_all

text \<open>
  C3. A request whose body has no \<open>question\<close>, or an empty one (any value that is not
  truthy), is answered with status 400 and the validation message, and the handler makes
  no call of \<^verbatim>\<open>fetch\<close>: the list of its calls is empty.
\<close>

theorem chat_rejects_empty_question:
  assumes "prop_get body ''question'' = Inr question" and "\<not> truthy question"
  shows "chat_handler rt now fetch body =
    ([], Inr (Response 400 (JObj [(''message'', JStr msg_question_required)])))"
proof -
  from assms(1) have "\<not> nullish body" by (rule prop_get_not_nullish)
  then obtain ctx where "prop_get body ''context'' = Inr ctx"
    using prop_get_defined by blast
  with assms show ?thesis
    by (simp add: chat_handler_def and_then_simps)
qed

theorem chat_rejects_empty_question_witness:
  "prop_get (JObj [(''context'', JObj [])]) ''question'' = Inr JUndefined
   \<and> \<not> truthy JUndefined
   \<and> chat_handler
        \<lparr>gt_zero = (\<lambda>v. Inr False), minus_one_key = (\<lambda>v. Inr ''NaN''),
         type_error_message = (\<lambda>site. site)\<rparr>
        ''2024-01-15T10:30:00.000Z'' (\<lambda>c. Inl (Error None ''unreachable''))
        (JObj [(''context'', JObj [])]) =
      ([], Inr (Response 400 (JObj [(''message'', JStr msg_question_required)])))"
  using chat_rejects_empty_question [of "JObj [(''context'', JObj [])]" JUndefined]
  by simp

lemma truthy_not_nullish: "truthy v \<Longrightarrow> \<not> nullish v"
  by (cases v) simp_all

lemma model_info_of_defined: "\<exists>m. model_info_of model = Inr m \<and> m \<noteq> JUndefined"
proof (cases "truthy model")
  case True
  then have "\<not> nullish model" by (rule truthy_not_nullish)
  then obtain n t where "prop_get model ''name'' = Inr n" "prop_get model ''type'' = Inr t"
    using prop_get_defined by blast
  with True show ?thesis by (simp add: model_info_of_def and_then_simps)
next
  case False
  then show ?thesis by (simp add: model_info_of_def)
qed

lemma dataset_entry_defined: "\<not> nullish d \<Longrightarrow> \<exists>e. dataset_entry d = Inr e"
proof -
  assume "\<not> nullish d"
  then obtain n s where "prop_get d ''name'' = Inr n" "prop_get d ''source'' = Inr s"
    using prop_get_defined by blast
  then show ?thesis by (simp add: dataset_entry_def and_then_simps)
qed

lemma traverse_defined:
  "list_all (\<lambda>x. \<exists>y. f x = Inr y) xs \<Longrightarrow> \<exists>ys. traverse f xs = Inr ys \<and> length ys = length xs"
  by (induction xs) auto

lemma datasets_of_defined:
  assumes "\<not> truthy datasets \<or> (\<exists>ds. datasets = JArr ds \<and> list_all (\<lambda>d. \<not> nullish d) ds)"
  shows "\<exists>ds. datasets_of rt datasets = Inr (JArr ds)"
proof (cases "truthy datasets")
  case False
  then show ?thesis by (simp add: datasets_of_def)
next
  case True
  with assms obtain ds where ds: "datasets = JArr ds" "list_all (\<lambda>d. \<not> nullish d) ds" by blast
  then have "list_all (\<lambda>d. \<exists>e. dataset_entry d = Inr e) ds"
    by (simp add: list_all_iff dataset_entry_defined)
  then obtain es where "traverse dataset_entry ds = Inr es" using traverse_defined by blast
  with ds show ?thesis by (cases ds) (simp_all add: datasets_of_def and_then_simps)
qed

text \<open>
  C1 (as amended). A request whose body has a non-empty \<open>question\<close> and a \<open>context\<close>
  that is neither missing nor \<open>null\<close>, with \<open>datasets\<close> absent (or not truthy) or
  an array without \<open>null\<close> entries, makes the handler send exactly one call: a POST
  to the \<open>/process_emergency_event\<close> URL whose body is \<open>{input_data}\<close>. \<open>input_data\<close>
  has the seven members \<open>user_question\<close> (the question), \<open>region\<close> (the region of
  the context, the default marker when that is absent or empty), \<open>model_info\<close>,
  \<open>datasets\<close>, \<open>emergency_type\<close>, \<open>severity_level\<close> and \<open>timestamp\<close>, none of
  them \<open>undefined\<close>; \<open>emergency_type\<close> is \<open>general_inquiry\<close> and
  \<open>severity_level\<close> is \<open>low\<close> whatever the request holds.
\<close>

theorem chat_sends_one_post:
  assumes "prop_get body ''question'' = Inr question" and "truthy question"
    and "prop_get body ''context'' = Inr ctx" and "\<not> nullish ctx"
    and "prop_get ctx ''region'' = Inr region"
    and "prop_get ctx ''datasets'' = Inr datasets"
    and "\<not> truthy datasets \<or> (\<exists>ds. datasets = JArr ds \<and> list_all (\<lambda>d. \<not> nullish d) ds)"
  shows "\<exists>model_info ds. model_info \<noteq> JUndefined \<and>
    fst (chat_handler rt now fetch body) =
      [\<lparr>call_url = langgraphUrl, call_method = ''POST'',
        call_content_type = ''application/json'',
        call_body = Some (JObj [(''input_data'', JObj
          [(''user_question'', question),
           (''region'', if truthy region then region else JStr region_unspecified),
           (''model_info'', model_info),
           (''datasets'', JArr ds),
           (''emergency_type'', JStr ''general_inquiry''),
           (''severity_level'', JStr ''low''),
           (''timestamp'', JStr now)])])\<rparr>]"
proof -
  from assms(4) obtain model where model: "prop_get ctx ''model'' = Inr model"
    using prop_get_defined by blast
  obtain model_info where mi: "model_info_of model = Inr model_info" "model_info \<noteq> JUndefined"
    using model_info_of_defined by blast
  obtain ds where ds: "datasets_of rt datasets = Inr (JArr ds)"
    using datasets_of_defined [OF assms(7)] by blast
  have "build_input_data rt now question ctx = Inr (JObj
          [(''user_question'', question),
           (''region'', if truthy region then region else JStr region_unspecified),
           (''model_info'', model_info),
           (''datasets'', JArr ds),
           (''emergency_type'', JStr ''general_inquiry''),
           (''severity_level'', JStr ''low''),
           (''timestamp'', JStr now)])"
    using assms(5,6) model mi(1) ds by (simp add: build_input_data_def and_then_simps)
  with assms(1-3) have "fst (chat_handler rt now fetch body) = [langgraph_call (JObj
          [(''user_question'', question),
           (''region'', if truthy region then region else JStr region_unspecified),
           (''model_info'', model_info),
           (''datasets'', JArr ds),
           (''emergency_type'', JStr ''general_inquiry''),
           (''severity_level'', JStr ''low''),
           (''timestamp'', JStr now)])]"
    by (simp add: chat_handler_def and_then_simps)
  with mi(2) show ?thesis unfolding langgraph_call_def by blast
qed


theorem chat_sends_one_post_witness:
  "prop_get (JObj [(''question'', JStr ''hi''),
                   (''context'', JObj [(''region'', JStr ''Hunan''),
                      (''datasets'', JArr [JObj [(''name'', JStr ''rain''), (''source'', JStr ''CMA'')]])])])
      ''question'' = Inr (JStr ''hi'')
   \<and> truthy (JStr ''hi'')
   \<and> \<not> nullish (JObj [(''region'', JStr ''Hunan''),
                      (''datasets'', JArr [JObj [(''name'', JStr ''rain''), (''source'', JStr ''CMA'')]])])
   \<and> list_all (\<lambda>d. \<not> nullish d) [JObj [(''name'', JStr ''rain''), (''source'', JStr ''CMA'')]]
   \<and> (\<exists>model_info ds. model_info \<noteq> JUndefined \<and>
        fst (chat_handler
               \<lparr>gt_zero = (\<lambda>v. Inr False), minus_one_key = (\<lambda>v. Inr ''NaN''),
                type_error_message = (\<lambda>site. site)\<rparr>
               ''2024-01-15T10:30:00.000Z'' (\<lambda>c. Inl (Error None ''ECONNREFUSED''))
               (JObj [(''question'', JStr ''hi''),
                   (''context'', JObj [(''region'', JStr ''Hunan''),
                      (''datasets'', JArr [JObj [(''name'', JStr ''rain''), (''source'', JStr ''CMA'')]])])])) =
          [\<lparr>call_url = langgraphUrl, call_method = ''POST'',
            call_content_type = ''application/json'',
            call_body = Some (JObj [(''input_data'', JObj
              [(''user_question'', JStr ''hi''),
               (''region'', JStr ''Hunan''),
               (''model_info'', model_info),
               (''datasets'', JArr ds),
               (''emergency_type'', JStr ''general_inquiry''),
               (''severity_level'', JStr ''low''),
               (''timestamp'', JStr ''2024-01-15T10:30:00.000Z'')])])\<rparr>])"
  using chat_sends_one_post
    [of "JObj [(''question'', JStr ''hi''),
                   (''context'', JObj [(''region'', JStr ''Hunan''),
                      (''datasets'', JArr [JObj [(''name'', JStr ''rain''), (''source'', JStr ''CMA'')]])])]"
        "JStr ''hi''"
        "JObj [(''region'', JStr ''Hunan''),
                      (''datasets'', JArr [JObj [(''name'', JStr ''rain''), (''source'', JStr ''CMA'')]])]"
        "JStr ''Hunan''"
        "JArr [JObj [(''name'', JStr ''rain''), (''source'', JStr ''CMA'')]]"
        "\<lparr>gt_zero = (\<lambda>v. Inr False), minus_one_key = (\<lambda>v. Inr ''NaN''),
                type_error_message = (\<lambda>site. site)\<rparr>"
        "''2024-01-15T10:30:00.000Z''" "\<lambda>c. Inl (Error None ''ECONNREFUSED'')"]
  by simp

text \<open>
  The claim as first stated covers every request with a non-empty question. A request
  without \<open>context\<close> has one; reading \<^verbatim>\<open>context.region\<close> throws inside the
  \<^verbatim>\<open>try\<close> block, the handler answers 500 and sends nothing upstream. (The engine of
  this example gives a type error the name of the property as its message.)
\<close>

theorem chat_without_context_counterexample:
  "prop_get (JObj [(''question'', JStr ''hi'')]) ''question'' = Inr (JStr ''hi'')
   \<and> truthy (JStr ''hi'')
   \<and> chat_handler
        \<lparr>gt_zero = (\<lambda>v. Inr False), minus_one_key = (\<lambda>v. Inr ''NaN''),
         type_error_message = (\<lambda>site. site)\<rparr>
        ''2024-01-15T10:30:00.000Z'' (\<lambda>c. Inl (Error None ''ECONNREFUSED''))
        (JObj [(''question'', JStr ''hi'')]) =
      ([], Inr (Response 500 (JObj [(''message'', JStr (chat_error_prefix @ ''region''))])))"
  by (simp add: chat_handler_def build_input_data_def chat_catch_def err_message_def
      and_then_simps)

lemma push_alerts_appends:
  "push_alerts rt report parts =
     (case push_alerts rt report [] of Inl e \<Rightarrow> Inl e | Inr a \<Rightarrow> Inr (parts @ a))"
  by (simp add: push_alerts_def and_then_def split: sum.splits)

lemma push_recommendations_appends:
  "push_recommendations rt report parts =
     (case push_recommendations rt report [] of Inl e \<Rightarrow> Inl e | Inr a \<Rightarrow> Inr (parts @ a))"
  by (simp add: push_recommendations_def and_then_def split: sum.splits)

lemma push_log_appends:
  "push_log rt report parts =
     (case push_log rt report [] of Inl e \<Rightarrow> Inl e | Inr a \<Rightarrow> Inr (parts @ a))"
  by (simp add: push_log_def and_then_def split: sum.splits)

lemma push_summary_appends:
  "push_summary report parts =
     (case push_summary report [] of Inl e \<Rightarrow> Inl e | Inr a \<Rightarrow> Inr (parts @ a))"
  by (simp add: push_summary_def and_then_def split: sum.splits)

lemma heading_nonempty:
  "alerts_heading \<noteq> []" "recommendations_heading \<noteq> []"
  "analysis_heading \<noteq> []" "summary_heading \<noteq> []"
  by (simp_all add: alerts_heading_def recommendations_heading_def analysis_heading_def
      summary_heading_def)

lemma push_alerts_nonempty:
  "push_alerts rt report [] = Inr a \<Longrightarrow> list_all (\<lambda>p. p \<noteq> []) a"
  by (auto simp: push_alerts_def and_then_def heading_nonempty split: sum.splits if_splits)

lemma push_recommendations_nonempty:
  "push_recommendations rt report [] = Inr a \<Longrightarrow> list_all (\<lambda>p. p \<noteq> []) a"
  by (auto simp: push_recommendations_def and_then_def heading_nonempty
      split: sum.splits if_splits)

lemma push_log_nonempty:
  "push_log rt report [] = Inr a \<Longrightarrow> list_all (\<lambda>p. p \<noteq> []) a"
  by (auto simp: push_log_def and_then_def heading_nonempty split: sum.splits if_splits)

lemma push_summary_nonempty:
  "push_summary report [] = Inr a \<Longrightarrow> list_all (\<lambda>p. p \<noteq> []) a"
  by (auto simp: push_summary_def and_then_def heading_nonempty split: sum.splits if_splits)

lemma join_with_nonempty:
  "parts \<noteq> [] \<Longrightarrow> list_all (\<lambda>p. p \<noteq> []) parts \<Longrightarrow> join_with sep parts \<noteq> []"
  by (induction sep parts rule: join_with.induct) simp_all

lemma extract_reply_sections:
  assumes "prop_get result ''final_report'' = Inr report" and "truthy report"
    and "extract_reply rt question result = Inr aiReply"
  shows "\<exists>a r l s. push_alerts rt report [] = Inr a \<and> push_recommendations rt report [] = Inr r
      \<and> push_log rt report [] = Inr l \<and> push_summary report [] = Inr s
      \<and> (if a @ r @ l @ s = [] then \<exists>q. to_string question = Inr q \<and> aiReply = fallback_before @ q @ fallback_after
          else aiReply = join_with ''\<newline>\<newline>'' (a @ r @ l @ s))"
proof -
  from assms obtain a where a: "push_alerts rt report [] = Inr a"
    by (auto simp: extract_reply_def and_then_def split: sum.splits)
  from assms a obtain p2 where p2: "push_recommendations rt report a = Inr p2"
    by (auto simp: extract_reply_def and_then_def split: sum.splits)
  then obtain r where r: "push_recommendations rt report [] = Inr r" "p2 = a @ r"
    by (subst (asm) push_recommendations_appends) (auto split: sum.splits)
  from assms a p2 obtain p3 where p3: "push_log rt report p2 = Inr p3"
    by (auto simp: extract_reply_def and_then_def split: sum.splits)
  then obtain l where l: "push_log rt report [] = Inr l" "p3 = p2 @ l"
    by (subst (asm) push_log_appends) (auto split: sum.splits)
  from assms a p2 p3 obtain p4 where p4: "push_summary report p3 = Inr p4"
    by (auto simp: extract_reply_def and_then_def split: sum.splits)
  then obtain s where s: "push_summary report [] = Inr s" "p4 = p3 @ s"
    by (subst (asm) push_summary_appends) (auto split: sum.splits)
  have "and_then (if length p4 = 0 then and_then (to_string question) (\<lambda>q. Inr (fallback_before @ q @ fallback_after))
         else Inr (join_with ''\<newline>\<newline>'' p4)) Inr = Inr aiReply"
    using assms a p2 p3 p4 by (simp add: extract_reply_def and_then_simps split: if_splits)
  then have "if p4 = [] then \<exists>q. to_string question = Inr q \<and> aiReply = fallback_before @ q @ fallback_after
          else aiReply = join_with ''\<newline>\<newline>'' p4"
    by (auto simp: and_then_def split: sum.splits if_splits)
  with a r l s show ?thesis by (auto simp del: append_is_Nil_conv Nil_is_append_conv)
qed


lemma prop_get_field: "\<not> nullish v \<Longrightarrow> prop_get v k = Inr (field v k)"
  by (cases v) (simp_all add: field_def)

lemma to_string_shown: "printable v \<Longrightarrow> to_string v = Inr (shown v)"
  by (cases "to_string v") (simp_all add: printable_def shown_def)

lemma items_empty: "\<not> truthy v \<Longrightarrow> items v = []"
  by (cases v) (simp_all add: items_def)

lemma bullet_shown: "printable v \<Longrightarrow> bullet v = Inr (''- '' @ shown v)"
  by (simp add: bullet_def to_string_shown and_then_simps)

lemma json_stringify_entry: "\<not> nullish entry \<Longrightarrow> json_stringify entry = JStr (serialize entry)"
  by (cases entry) (simp_all add: json_stringify_def)

lemma alert_line_text:
  assumes "\<not> nullish alert" and "printable (entry_text ''message'' alert)"
  shows "alert_line alert = Inr (''- '' @ shown (entry_text ''message'' alert))"
  using assms
  by (auto simp: alert_line_def prop_get_field and_then_simps entry_text_def
      json_stringify_entry bullet_shown split: if_splits)

lemma recommendation_line_text:
  assumes "\<not> nullish rec" and "printable (entry_text ''action'' rec)"
  shows "recommendation_line rec = Inr (''- '' @ shown (entry_text ''action'' rec))"
  using assms
  by (auto simp: recommendation_line_def prop_get_field and_then_simps entry_text_def
      json_stringify_entry bullet_shown split: if_splits)

lemma traverse_map: "list_all (\<lambda>x. f x = Inr (g x)) xs \<Longrightarrow> traverse f xs = Inr (map g xs)"
  by (induction xs) simp_all

lemma push_alerts_report:
  assumes "\<not> nullish report" and "list_or_empty (field report ''alerts'')"
    and "entries_ok ''message'' (items (field report ''alerts''))"
  shows "push_alerts rt report [] =
    Inr (section_of (items (field report ''alerts'') \<noteq> [])
           (alerts_heading @ bullet_list ''message'' (items (field report ''alerts''))))"
proof (cases "field report ''alerts''")
  case (JArr xs)
  with assms(3) have "list_all (\<lambda>a. alert_line a = Inr (''- '' @ shown (entry_text ''message'' a))) xs"
    by (simp add: entries_ok_def items_def list_all_iff alert_line_text)
  then have "traverse alert_line xs =
      Inr (map (\<lambda>a. ''- '' @ shown (entry_text ''message'' a)) xs)"
    by (rule traverse_map)
  with JArr assms(1) show ?thesis
    by (simp add: push_alerts_def prop_get_field and_then_simps items_def section_of_def
        bullet_list_def)
qed (use assms in \<open>simp_all add: push_alerts_def prop_get_field and_then_simps items_def
      section_of_def list_or_empty_def\<close>)

lemma push_recommendations_report:
  assumes "\<not> nullish report" and "list_or_empty (field report ''recommendations'')"
    and "entries_ok ''action'' (items (field report ''recommendations''))"
  shows "push_recommendations rt report [] =
    Inr (section_of (items (field report ''recommendations'') \<noteq> [])
           (recommendations_heading
              @ bullet_list ''action'' (items (field report ''recommendations''))))"
proof (cases "field report ''recommendations''")
  case (JArr xs)
  with assms(3) have "list_all (\<lambda>a. recommendation_line a = Inr (''- '' @ shown (entry_text ''action'' a))) xs"
    by (simp add: entries_ok_def items_def list_all_iff recommendation_line_text)
  then have "traverse recommendation_line xs =
      Inr (map (\<lambda>a. ''- '' @ shown (entry_text ''action'' a)) xs)"
    by (rule traverse_map)
  with JArr assms(1) show ?thesis
    by (simp add: push_recommendations_def prop_get_field and_then_simps items_def
        section_of_def bullet_list_def)
qed (use assms in \<open>simp_all add: push_recommendations_def prop_get_field and_then_simps
      items_def section_of_def list_or_empty_def\<close>)

lemma push_log_report:
  assumes "\<not> nullish report" and "list_or_empty (field report ''processing_log'')"
    and "items (field report ''processing_log'') = []
         \<or> \<not> nullish (last (items (field report ''processing_log'')))"
    and "printable (last_message (items (field report ''processing_log'')))"
  shows "push_log rt report [] =
    Inr (section_of (truthy (last_message (items (field report ''processing_log''))))
           (analysis_heading @ shown (last_message (items (field report ''processing_log'')))))"
proof (cases "field report ''processing_log''")
  case (JArr xs)
  show ?thesis
  proof (cases "xs = []")
    case True
    with JArr assms(1) show ?thesis
      by (simp add: push_log_def prop_get_field and_then_simps items_def section_of_def
          last_message_def)
  next
    case False
    with JArr assms(3) have "\<not> nullish (last xs)" by (simp add: items_def)
    then have "prop_get (last xs) ''message'' = Inr (field (last xs) ''message'')"
      by (rule prop_get_field)
    moreover from JArr False assms(4) have "printable (field (last xs) ''message'')"
      by (simp add: items_def last_message_def)
    ultimately show ?thesis using JArr False assms(1)
      by (simp add: push_log_def prop_get_field and_then_simps items_def section_of_def
          last_message_def to_string_shown)
  qed
qed (use assms in \<open>simp_all add: push_log_def prop_get_field and_then_simps items_def
      section_of_def list_or_empty_def last_message_def\<close>)

lemma push_summary_report:
  assumes "\<not> nullish report" and "printable (field report ''summary'')"
  shows "push_summary report [] =
    Inr (section_of (truthy (field report ''summary''))
           (summary_heading @ shown (field report ''summary'')))"
  using assms
  by (simp add: push_summary_def prop_get_field and_then_simps section_of_def to_string_shown)

text \<open>
  C4 (as amended). For every upstream response whose \<open>final_report\<close> is well formed
  (\<open>alerts\<close>, \<open>recommendations\<close> and \<open>processing_log\<close> are arrays or absent, no
  entry of the first two and not the last of the third is \<open>null\<close>, and what is
  printed has a text) the handler builds a reply, and the reply is \<open>report_reply\<close>:
  the sections that are present and non-empty, in the fixed order alerts,
  recommendations, message of the last entry of \<open>processing_log\<close>, summary, joined by
  blank lines; the list of alerts and the list of recommendations print one line per
  entry, a dash and the text of the entry; when no section has content the reply is the
  fixed sentence around the text of the question.
\<close>

theorem reply_is_sections_in_order:
  assumes "prop_get langgraphResult ''final_report'' = Inr report" and "truthy report"
    and "well_formed_report report" and "to_string question = Inr qtext"
  shows "extract_reply rt question langgraphResult = Inr (report_reply qtext report)"
proof -
  from assms(2) have nn: "\<not> nullish report" by (rule truthy_not_nullish)
  let ?a = "section_of (items (field report ''alerts'') \<noteq> [])
          (alerts_heading @ bullet_list ''message'' (items (field report ''alerts'')))"
  let ?r = "section_of (items (field report ''recommendations'') \<noteq> [])
          (recommendations_heading
             @ bullet_list ''action'' (items (field report ''recommendations'')))"
  let ?l = "section_of (truthy (last_message (items (field report ''processing_log''))))
          (analysis_heading @ shown (last_message (items (field report ''processing_log''))))"
  let ?s = "section_of (truthy (field report ''summary''))
          (summary_heading @ shown (field report ''summary''))"
  have a: "push_alerts rt report [] = Inr ?a"
    using nn assms(3) by (simp add: well_formed_report_def push_alerts_report)
  have r: "push_recommendations rt report ?a = Inr (?a @ ?r)"
    using nn assms(3)
    by (subst push_recommendations_appends)
       (simp add: well_formed_report_def push_recommendations_report)
  have l: "push_log rt report (?a @ ?r) = Inr ((?a @ ?r) @ ?l)"
    using nn assms(3)
    by (subst push_log_appends) (simp add: well_formed_report_def push_log_report)
  have s: "push_summary report ((?a @ ?r) @ ?l) = Inr (((?a @ ?r) @ ?l) @ ?s)"
    using nn assms(3)
    by (subst push_summary_appends) (simp add: well_formed_report_def push_summary_report)
  have "extract_reply rt question langgraphResult =
      (if length (((?a @ ?r) @ ?l) @ ?s) = 0
       then and_then (to_string question) (\<lambda>q. Inr (fallback_before @ q @ fallback_after))
       else Inr (join_with ''\<newline>\<newline>'' (((?a @ ?r) @ ?l) @ ?s)))"
    unfolding extract_reply_def using assms(1,2) a r l s
    by (simp only: and_then_simps if_True)
  also have "\<dots> = Inr (report_reply qtext report)"
    using assms(4) by (simp add: report_reply_def compose_reply_def and_then_simps)
  finally show ?thesis .
qed


theorem reply_is_sections_in_order_witness:
  "prop_get (JObj [(''final_report'',
        JObj [(''alerts'', JArr [JObj [(''message'', JStr ''Flood warning'')],
                                JObj [(''description'', JStr ''Levee breach'')],
                                JObj [(''level'', JStr ''high'')]]),
           (''recommendations'', JArr [JObj [(''action'', JStr ''Evacuate'')],
                                         JObj [(''description'', JStr ''Close roads'')]]),
           (''processing_log'', JArr [JObj [(''message'', JStr ''started'')],
                                        JObj [(''message'', JStr ''Analysis complete'')]]),
           (''summary'', JStr ''Stay alert'')])]) ''final_report'' =
     Inr (JObj [(''alerts'', JArr [JObj [(''message'', JStr ''Flood warning'')],
                                JObj [(''description'', JStr ''Levee breach'')],
                                JObj [(''level'', JStr ''high'')]]),
           (''recommendations'', JArr [JObj [(''action'', JStr ''Evacuate'')],
                                         JObj [(''description'', JStr ''Close roads'')]]),
           (''processing_log'', JArr [JObj [(''message'', JStr ''started'')],
                                        JObj [(''message'', JStr ''Analysis complete'')]]),
           (''summary'', JStr ''Stay alert'')])
   \<and> truthy (JObj [(''alerts'', JArr [JObj [(''message'', JStr ''Flood warning'')],
                                JObj [(''description'', JStr ''Levee breach'')],
                                JObj [(''level'', JStr ''high'')]]),
           (''recommendations'', JArr [JObj [(''action'', JStr ''Evacuate'')],
                                         JObj [(''description'', JStr ''Close roads'')]]),
           (''processing_log'', JArr [JObj [(''message'', JStr ''started'')],
                                        JObj [(''message'', JStr ''Analysis complete'')]]),
           (''summary'', JStr ''Stay alert'')])
   \<and> well_formed_report (JObj [(''alerts'', JArr [JObj [(''message'', JStr ''Flood warning'')],
                                JObj [(''description'', JStr ''Levee breach'')],
                                JObj [(''level'', JStr ''high'')]]),
           (''recommendations'', JArr [JObj [(''action'', JStr ''Evacuate'')],
                                         JObj [(''description'', JStr ''Close roads'')]]),
           (''processing_log'', JArr [JObj [(''message'', JStr ''started'')],
                                        JObj [(''message'', JStr ''Analysis complete'')]]),
           (''summary'', JStr ''Stay alert'')])
   \<and> to_string (JStr ''hi'') = Inr ''hi''
   \<and> extract_reply
        \<lparr>gt_zero = (\<lambda>v. Inr False), minus_one_key = (\<lambda>v. Inr ''NaN''),
         type_error_message = (\<lambda>site. site)\<rparr>
        (JStr ''hi'')
        (JObj [(''final_report'',
        JObj [(''alerts'', JArr [JObj [(''message'', JStr ''Flood warning'')],
                                JObj [(''description'', JStr ''Levee breach'')],
                                JObj [(''level'', JStr ''high'')]]),
           (''recommendations'', JArr [JObj [(''action'', JStr ''Evacuate'')],
                                         JObj [(''description'', JStr ''Close roads'')]]),
           (''processing_log'', JArr [JObj [(''message'', JStr ''started'')],
                                        JObj [(''message'', JStr ''Analysis complete'')]]),
           (''summary'', JStr ''Stay alert'')])]) =
      Inr (alerts_heading
           @ ''- Flood warning\<newline>- Levee breach\<newline>- {'' @ [CHR 0x22] @ ''level''
           @ [CHR 0x22] @ '':'' @ [CHR 0x22] @ ''high'' @ [CHR 0x22] @ ''}''
           @ ''\<newline>\<newline>''
           @ recommendations_heading @ ''- Evacuate\<newline>- Close roads''
           @ ''\<newline>\<newline>''
           @ analysis_heading @ ''Analysis complete''
           @ ''\<newline>\<newline>''
           @ summary_heading @ ''Stay alert'')"
proof -
  let ?report = "JObj [(''alerts'', JArr [JObj [(''message'', JStr ''Flood warning'')],
                                JObj [(''description'', JStr ''Levee breach'')],
                                JObj [(''level'', JStr ''high'')]]),
           (''recommendations'', JArr [JObj [(''action'', JStr ''Evacuate'')],
                                         JObj [(''description'', JStr ''Close roads'')]]),
           (''processing_log'', JArr [JObj [(''message'', JStr ''started'')],
                                        JObj [(''message'', JStr ''Analysis complete'')]]),
           (''summary'', JStr ''Stay alert'')]"
  let ?rt = "\<lparr>gt_zero = (\<lambda>v. Inr False), minus_one_key = (\<lambda>v. Inr ''NaN''),
         type_error_message = (\<lambda>site. site)\<rparr>"
  have h1: "prop_get (JObj [(''final_report'', ?report)]) ''final_report'' = Inr ?report"
    by simp
  have h2: "truthy ?report" by simp
  have h3: "well_formed_report ?report" by code_simp
  have h4: "to_string (JStr ''hi'') = Inr ''hi''" by simp
  have "report_reply ''hi'' ?report = alerts_heading
           @ ''- Flood warning\<newline>- Levee breach\<newline>- {'' @ [CHR 0x22] @ ''level''
           @ [CHR 0x22] @ '':'' @ [CHR 0x22] @ ''high'' @ [CHR 0x22] @ ''}''
           @ ''\<newline>\<newline>''
           @ recommendations_heading @ ''- Evacuate\<newline>- Close roads''
           @ ''\<newline>\<newline>''
           @ analysis_heading @ ''Analysis complete''
           @ ''\<newline>\<newline>''
           @ summary_heading @ ''Stay alert''"
    by code_simp
  with reply_is_sections_in_order [OF h1 h2 h3 h4, of ?rt] h1 h2 h3 h4 show ?thesis
    by simp
qed

text \<open>
  The claim as first stated covers every response with a \<open>final_report\<close>. This one
  has a report with one alert and a \<open>processing_log\<close> whose last entry is \<open>null\<close>:
  reading \<^verbatim>\<open>lastLog.message\<close> throws, and the handler answers 500 with an error
  message and no reply, not the section of the alert.
\<close>

theorem reply_null_log_entry_counterexample:
  "prop_get (JObj [(''final_report'',
        JObj [(''alerts'', JArr [JObj [(''message'', JStr ''Flood warning'')]]),
           (''processing_log'', JArr [JNull])])]) ''final_report'' =
     Inr (JObj [(''alerts'', JArr [JObj [(''message'', JStr ''Flood warning'')]]),
           (''processing_log'', JArr [JNull])])
   \<and> truthy (JObj [(''alerts'', JArr [JObj [(''message'', JStr ''Flood warning'')]]),
           (''processing_log'', JArr [JNull])])
   \<and> items (field (JObj [(''alerts'', JArr [JObj [(''message'', JStr ''Flood warning'')]]),
           (''processing_log'', JArr [JNull])]) ''alerts'') = [JObj [(''message'', JStr ''Flood warning'')]]
   \<and> snd (chat_handler
        \<lparr>gt_zero = (\<lambda>v. Inr False), minus_one_key = (\<lambda>v. Inr ''NaN''),
         type_error_message = (\<lambda>site. site)\<rparr>
        ''2024-01-15T10:30:00.000Z''
        (\<lambda>call. Inr \<lparr>resp_ok = True,
            resp_text = Inr (serialize (JObj [(''final_report'',
        JObj [(''alerts'', JArr [JObj [(''message'', JStr ''Flood warning'')]]),
           (''processing_log'', JArr [JNull])])])),
            resp_json = Inr (JObj [(''final_report'',
        JObj [(''alerts'', JArr [JObj [(''message'', JStr ''Flood warning'')]]),
           (''processing_log'', JArr [JNull])])])\<rparr>)
        (JObj [(''question'', JStr ''hi''), (''context'', JObj [])])) =
      Inr (Response 500 (JObj [(''message'', JStr (chat_error_prefix @ ''message''))]))"
  by (simp add: chat_handler_def build_input_data_def model_info_of_def datasets_of_def
      after_fetch_def extract_reply_def push_alerts_def push_recommendations_def
      push_log_def alert_line_def bullet_def chat_catch_def err_message_def
      and_then_simps field_def items_def)

lemma extract_reply_no_report:
  "prop_get result ''final_report'' = Inr report \<Longrightarrow> \<not> truthy report
   \<Longrightarrow> extract_reply rt question result = Inr msg_no_report"
  by (simp add: extract_reply_def and_then_simps)

lemma extract_reply_nonempty:
  assumes "extract_reply rt question result = Inr aiReply"
  shows "aiReply \<noteq> []"
proof -
  from assms obtain report where report: "prop_get result ''final_report'' = Inr report"
    by (auto simp: extract_reply_def and_then_def split: sum.splits)
  show ?thesis
  proof (cases "truthy report")
    case False
    with report assms have "aiReply = msg_no_report"
      by (simp add: extract_reply_no_report)
    then show ?thesis by (simp add: msg_no_report_def)
  next
    case True
    from extract_reply_sections [OF report True assms] obtain a r l s where
      parts: "push_alerts rt report [] = Inr a" "push_recommendations rt report [] = Inr r"
        "push_log rt report [] = Inr l" "push_summary report [] = Inr s"
      and reply: "if a @ r @ l @ s = []
        then \<exists>q. to_string question = Inr q \<and> aiReply = fallback_before @ q @ fallback_after
        else aiReply = join_with ''\<newline>\<newline>'' (a @ r @ l @ s)"
      by blast
    show ?thesis
    proof (cases "a @ r @ l @ s = []")
      case True
      with reply show ?thesis by (auto simp: fallback_before_def)
    next
      case False
      have "list_all (\<lambda>p. p \<noteq> []) (a @ r @ l @ s)"
        using parts push_alerts_nonempty push_recommendations_nonempty push_log_nonempty
          push_summary_nonempty by simp
      with False have "join_with ''\<newline>\<newline>'' (a @ r @ l @ s) \<noteq> []"
        by (rule join_with_nonempty)
      with False reply show ?thesis by simp
    qed
  qed
qed

lemma after_fetch_Inr:
  "after_fetch rt question resp = Inr aiReply \<longleftrightarrow>
     resp_ok resp \<and> (\<exists>result. resp_json resp = Inr result
        \<and> extract_reply rt question result = Inr aiReply)"
  by (auto simp: after_fetch_def and_then_def split: sum.splits)

lemma after_fetch_throws:
  "(\<exists>err. and_then r (after_fetch rt question) = Inl err) \<longleftrightarrow>
     ((\<exists>err. r = Inl err)
      \<or> (\<exists>resp. r = Inr resp
           \<and> (\<not> resp_ok resp
              \<or> (\<exists>err. resp_json resp = Inl err)
              \<or> (\<exists>result err. resp_json resp = Inr result
                   \<and> extract_reply rt question result = Inl err))))"
proof (cases r)
  case (Inl err)
  then show ?thesis by (simp add: and_then_simps)
next
  case (Inr resp)
  show ?thesis
  proof (cases "resp_ok resp")
    case False
    with Inr show ?thesis
      by (cases "resp_text resp") (simp_all add: and_then_simps after_fetch_def)
  next
    case True
    with Inr show ?thesis
      by (cases "resp_json resp") (simp_all add: and_then_simps after_fetch_def)
  qed
qed

text \<open>
  C2 (as amended). A request with a non-empty question is answered with status 200 or
  500. The status is 200 exactly when the whole \<^verbatim>\<open>try\<close> block runs through:
  \<open>input_data\<close> is built from the context, the upstream call yields a response that is
  ok, its body is JSON, and the reply is taken out of that body without an exception; the
  reply is then a string that is there and not empty, and it is the fixed text
  \<open>msg_no_report\<close> when the body has no \<open>final_report\<close>. In every other case (the
  upstream call fails, the response is not ok, or anything else in the block throws) the
  status is 500 and the body carries a diagnostic message.
\<close>

theorem chat_200_or_500:
  assumes "prop_get body ''question'' = Inr question" and "truthy question"
    and "prop_get body ''context'' = Inr ctx"
  shows "\<exists>r. snd (chat_handler rt now fetch body) = Inr r
    \<and> (res_status r = 200 \<or> res_status r = 500)
    \<and> (res_status r = 200) =
        (\<exists>input_data resp result aiReply.
            build_input_data rt now question ctx = Inr input_data
          \<and> fetch (langgraph_call input_data) = Inr resp
          \<and> resp_ok resp
          \<and> resp_json resp = Inr result
          \<and> extract_reply rt question result = Inr aiReply
          \<and> aiReply \<noteq> []
          \<and> res_body r = JObj [(''reply'', JStr aiReply)])
    \<and> (res_status r = 500) =
        ((\<exists>err. build_input_data rt now question ctx = Inl err)
         \<or> (\<exists>input_data. build_input_data rt now question ctx = Inr input_data
              \<and> ((\<exists>err. fetch (langgraph_call input_data) = Inl err)
                 \<or> (\<exists>resp. fetch (langgraph_call input_data) = Inr resp
                      \<and> (\<not> resp_ok resp
                         \<or> (\<exists>err. resp_json resp = Inl err)
                         \<or> (\<exists>result err. resp_json resp = Inr result
                              \<and> extract_reply rt question result = Inl err))))))
    \<and> (res_status r = 500 \<longrightarrow>
        (\<exists>err. res_body r = JObj [(''message'', JStr (chat_error_prefix @ err_message rt err))]))
    \<and> (\<forall>result report. prop_get result ''final_report'' = Inr report \<and> \<not> truthy report
          \<longrightarrow> extract_reply rt question result = Inr msg_no_report)"
proof (cases "build_input_data rt now question ctx")
  case (Inl err)
  with assms show ?thesis
    by (auto simp: chat_handler_def and_then_simps chat_catch_def extract_reply_no_report)
next
  case (Inr input_data)
  show ?thesis
  proof (cases "and_then (fetch (langgraph_call input_data)) (after_fetch rt question)")
    case (Inl err)
    then have "\<nexists>resp aiReply. fetch (langgraph_call input_data) = Inr resp
        \<and> after_fetch rt question resp = Inr aiReply"
      by (auto simp: and_then_def split: sum.splits)
    then have "\<nexists>resp result aiReply. fetch (langgraph_call input_data) = Inr resp
        \<and> resp_ok resp \<and> resp_json resp = Inr result
        \<and> extract_reply rt question result = Inr aiReply"
      by (simp add: after_fetch_Inr)
    moreover from Inl have "(\<exists>err. fetch (langgraph_call input_data) = Inl err)
        \<or> (\<exists>resp. fetch (langgraph_call input_data) = Inr resp
             \<and> (\<not> resp_ok resp
                \<or> (\<exists>err. resp_json resp = Inl err)
                \<or> (\<exists>result err. resp_json resp = Inr result
                     \<and> extract_reply rt question result = Inl err)))"
      using after_fetch_throws [of "fetch (langgraph_call input_data)" rt question] by blast
    ultimately show ?thesis using assms Inr Inl
      by (simp add: chat_handler_def and_then_simps chat_catch_def extract_reply_no_report)
         blast
  next
    case (Inr aiReply)
    then obtain resp where resp: "fetch (langgraph_call input_data) = Inr resp"
        "after_fetch rt question resp = Inr aiReply"
      by (auto simp: and_then_def split: sum.splits)
    then obtain result where result: "resp_ok resp" "resp_json resp = Inr result"
        "extract_reply rt question result = Inr aiReply"
      by (auto simp: after_fetch_Inr)
    from result(3) have "aiReply \<noteq> []" by (rule extract_reply_nonempty)
    with assms \<open>build_input_data rt now question ctx = Inr input_data\<close> Inr resp result
    show ?thesis
      by (auto simp: chat_handler_def and_then_simps extract_reply_no_report)
  qed
qed

theorem chat_200_or_500_witness:
  "prop_get (JObj [(''question'', JStr ''hi''), (''context'', JObj [])]) ''question'' =
     Inr (JStr ''hi'')
   \<and> truthy (JStr ''hi'')
   \<and> prop_get (JObj [(''question'', JStr ''hi''), (''context'', JObj [])]) ''context'' =
     Inr (JObj [])
   \<and> (\<exists>r. snd (chat_handler
                 \<lparr>gt_zero = (\<lambda>v. Inr False), minus_one_key = (\<lambda>v. Inr ''NaN''),
                  type_error_message = (\<lambda>site. site)\<rparr>
                 ''2024-01-15T10:30:00.000Z''
                 (\<lambda>call. Inr \<lparr>resp_ok = True, resp_text = Inr ''{}'',
                                resp_json = Inr (JObj [])\<rparr>)
                 (JObj [(''question'', JStr ''hi''), (''context'', JObj [])])) = Inr r
          \<and> (res_status r = 200 \<or> res_status r = 500))"
  using chat_200_or_500
    [of "JObj [(''question'', JStr ''hi''), (''context'', JObj [])]" "JStr ''hi''" "JObj []"
        "\<lparr>gt_zero = (\<lambda>v. Inr False), minus_one_key = (\<lambda>v. Inr ''NaN''),
          type_error_message = (\<lambda>site. site)\<rparr>"
        "''2024-01-15T10:30:00.000Z''"
        "\<lambda>call. Inr \<lparr>resp_ok = True, resp_text = Inr ''{}'', resp_json = Inr (JObj [])\<rparr>"]
  by auto

text \<open>
  The claim as first stated promises status 200 for every ok JSON response. An upstream
  body whose \<open>alerts\<close> holds \<open>null\<close> is ok JSON; reading \<^verbatim>\<open>alert.message\<close>
  throws and the answer is 500, after the one upstream call.
\<close>

theorem chat_null_alert_counterexample:
  "prop_get (JObj [(''question'', JStr ''hi''), (''context'', JObj [])]) ''question'' =
     Inr (JStr ''hi'')
   \<and> truthy (JStr ''hi'')
   \<and> chat_handler
        \<lparr>gt_zero = (\<lambda>v. Inr False), minus_one_key = (\<lambda>v. Inr ''NaN''),
         type_error_message = (\<lambda>site. site)\<rparr>
        ''2024-01-15T10:30:00.000Z''
        (\<lambda>call. Inr \<lparr>resp_ok = True, resp_text = Inr (serialize (JObj [(''final_report'',
                                      JObj [(''alerts'', JArr [JNull])])])),
                       resp_json = Inr (JObj [(''final_report'',
                                      JObj [(''alerts'', JArr [JNull])])])\<rparr>)
        (JObj [(''question'', JStr ''hi''), (''context'', JObj [])]) =
      ([langgraph_call (JObj
          [(''user_question'', JStr ''hi''),
           (''region'', JStr region_unspecified),
           (''model_info'', JNull),
           (''datasets'', JArr []),
           (''emergency_type'', JStr ''general_inquiry''),
           (''severity_level'', JStr ''low''),
           (''timestamp'', JStr ''2024-01-15T10:30:00.000Z'')])],
       Inr (Response 500 (JObj [(''message'', JStr (chat_error_prefix @ ''message''))])))"
  by (simp add: chat_handler_def build_input_data_def model_info_of_def datasets_of_def
      after_fetch_def extract_reply_def push_alerts_def alert_line_def chat_catch_def
      err_message_def and_then_simps)

lemma build_input_data_time:
  "(case build_input_data rt now1 question ctx of Inl e \<Rightarrow> Inl e | Inr d \<Rightarrow> Inr ()) =
   (case build_input_data rt now2 question ctx of Inl e \<Rightarrow> Inl e | Inr d \<Rightarrow> Inr ())"
  by (simp add: build_input_data_def and_then_def split: sum.splits)

text \<open>
  C7. The response of the chat handler does not depend on when it runs: with the same
  request body and an upstream that answers every call the same way, two runs at the
  times \<open>now1\<close> and \<open>now2\<close> give the same response, hence the same reply. The
  time only enters the \<open>timestamp\<close> sent upstream.
\<close>

theorem chat_reply_deterministic:
  "snd (chat_handler rt now1 (\<lambda>call. upstream) body) =
   snd (chat_handler rt now2 (\<lambda>call. upstream) body)"
proof -
  have same: "(case build_input_data rt now1 question ctx of
        Inl err \<Rightarrow> Inr (chat_catch rt err)
      | Inr input_data \<Rightarrow> Inr (case and_then upstream (after_fetch rt question) of
            Inl err \<Rightarrow> chat_catch rt err
          | Inr aiReply \<Rightarrow> Response 200 (JObj [(''reply'', JStr aiReply)]))) =
     (case build_input_data rt now2 question ctx of
        Inl err \<Rightarrow> (Inr (chat_catch rt err) :: exn + http_response)
      | Inr input_data \<Rightarrow> Inr (case and_then upstream (after_fetch rt question) of
            Inl err \<Rightarrow> chat_catch rt err
          | Inr aiReply \<Rightarrow> Response 200 (JObj [(''reply'', JStr aiReply)])))"
    for question ctx
    using build_input_data_time [of rt now1 question ctx now2]
    by (cases "build_input_data rt now1 question ctx";
        cases "build_input_data rt now2 question ctx") simp_all
  show ?thesis
  proof (cases "and_then (prop_get body ''question'') (\<lambda>question.
           and_then (prop_get body ''context'') (\<lambda>ctx. Inr (question, ctx)))")
    case (Inl e)
    then show ?thesis by (simp add: chat_handler_def)
  next
    case (Inr qc)
    obtain question ctx where "qc = (question, ctx)" by (cases qc)
    with Inr same [of question ctx] show ?thesis
      by (cases "build_input_data rt now1 question ctx";
          cases "build_input_data rt now2 question ctx")
         (simp_all add: chat_handler_def)
  qed
qed

section \<open>Properties of registration and login\<close>

lemma await_bcrypt_simps:
  "await_bcrypt (Inl msg) = Inl (Error None msg)"
  "await_bcrypt (Inr v) = Inr v"
  by (simp_all add: await_bcrypt_def)

text \<open>
  C9. For a registration request the status is 400 exactly when \<open>username\<close> or
  \<open>password\<close> is missing or empty, and then no query is sent to the database; it is
  409 exactly when both are there and the insert fails with an error whose code is
  \<open>23505\<close>; it is 201 exactly when the insert succeeds, and the body then holds the
  message and, as \<open>user\<close>, the row the database returned: for the row \<open>{id, username}\<close>
  of \<^verbatim>\<open>RETURNING id, username\<close> the body holds the id and the user name and nothing
  else, neither the password nor its hash.
\<close>

theorem register_statuses:
  assumes "credentials body = Inr (username, password)"
  shows "\<exists>r. snd (register_handler bc query body) = Inr r
    \<and> (res_status r = 400) = (\<not> truthy username \<or> \<not> truthy password)
    \<and> (res_status r = 400 \<longrightarrow> fst (register_handler bc query body) = []
          \<and> res_body r = JObj [(''message'', JStr msg_credentials_required)])
    \<and> (res_status r = 409) =
        (truthy username \<and> truthy password
         \<and> (\<exists>salt passwordHash err. genSalt bc 10 = Inr salt
              \<and> hash bc password salt = Inr passwordHash
              \<and> query insert_user_sql [username, JStr passwordHash] = Inl err
              \<and> err_code err = Some ''23505''))
    \<and> (res_status r = 201) =
        (truthy username \<and> truthy password
         \<and> (\<exists>salt passwordHash rows. genSalt bc 10 = Inr salt
              \<and> hash bc password salt = Inr passwordHash
              \<and> query insert_user_sql [username, JStr passwordHash] = Inr rows
              \<and> res_body r =
                  JObj [(''message'', JStr msg_register_ok), (''user'', first_row rows)]))
    \<and> (\<forall>salt passwordHash uid uname rows.
          truthy username \<and> truthy password \<and> genSalt bc 10 = Inr salt
          \<and> hash bc password salt = Inr passwordHash
          \<and> query insert_user_sql [username, JStr passwordHash] =
                Inr (JObj [(''id'', uid), (''username'', uname)] # rows)
          \<longrightarrow> r = Response 201
                (JObj [(''message'', JStr msg_register_ok),
                       (''user'', JObj [(''id'', uid), (''username'', uname)])]))"
proof (cases "truthy username \<and> truthy password")
  case False
  with assms show ?thesis
    by (auto simp: register_handler_def js_not_def)
next
  case True
  show ?thesis
  proof (cases "genSalt bc 10")
    case (Inl msg)
    with assms True show ?thesis
      by (auto simp: register_handler_def js_not_def and_then_simps await_bcrypt_simps
          register_catch_def err_code_def)
  next
    case salt: (Inr salt)
    show ?thesis
    proof (cases "hash bc password salt")
      case (Inl msg)
      with assms True salt show ?thesis
        by (auto simp: register_handler_def js_not_def and_then_simps await_bcrypt_simps
            register_catch_def err_code_def)
    next
      case h: (Inr passwordHash)
      show ?thesis
      proof (cases "query insert_user_sql [username, JStr passwordHash]")
        case (Inl err)
        with assms True salt h show ?thesis
          by (auto simp: register_handler_def js_not_def and_then_simps await_bcrypt_simps
              register_catch_def)
      next
        case (Inr rows)
        with assms True salt h show ?thesis
          by (auto simp: register_handler_def js_not_def and_then_simps await_bcrypt_simps
              first_row_def)
      qed
    qed
  qed
qed

theorem register_statuses_witness:
  "credentials (JObj [(''username'', JStr ''alice''), (''password'', JStr ''secret'')]) =
     Inr (JStr ''alice'', JStr ''secret'')
   \<and> (\<exists>r. snd (register_handler
                 \<lparr>genSalt = (\<lambda>rounds. Inr ''$2a$10$N9qo8uLOickgx2ZMRZoMye''),
                  hash = (\<lambda>password salt. Inr (salt @ ''IjZAgcfl7p92ldGxad68LJZdL17lhWy'')),
                  compare = (\<lambda>password password_hash. Inr False)\<rparr>
                 (\<lambda>sql values. Inr [JObj [(''id'', JNum ''1''), (''username'', JStr ''alice'')]])
                 (JObj [(''username'', JStr ''alice''), (''password'', JStr ''secret'')])) = Inr r
          \<and> r = Response 201
                (JObj [(''message'', JStr msg_register_ok),
                       (''user'', JObj [(''id'', JNum ''1''), (''username'', JStr ''alice'')])]))"
proof -
  let ?body = "JObj [(''username'', JStr ''alice''), (''password'', JStr ''secret'')]"
  let ?bc = "\<lparr>genSalt = (\<lambda>rounds. Inr ''$2a$10$N9qo8uLOickgx2ZMRZoMye''),
                  hash = (\<lambda>password salt. Inr (salt @ ''IjZAgcfl7p92ldGxad68LJZdL17lhWy'')),
                  compare = (\<lambda>password password_hash. Inr False)\<rparr>"
  let ?query = "\<lambda>(sql :: string) (values :: jsval list).
      (Inr [JObj [(''id'', JNum ''1''), (''username'', JStr ''alice'')]] :: exn + jsval list)"
  have c: "credentials ?body = Inr (JStr ''alice'', JStr ''secret'')"
    by (simp add: credentials_def and_then_simps)
  from register_statuses [OF c, of ?bc ?query] c show ?thesis
    by simp
qed




section \<open>The two upstream addresses\<close>

text \<open>
  C5 (what the code does). The URL the chat handler posts to and the URL the health
  handler gets have the same host, \<open>10.0.3.4\<close>. They do not have the same port: the
  first names port 2024, the second names none and so has the default port of
  \<open>http\<close>, 80.
\<close>

theorem health_port_differs:
  "url_host (call_url (langgraph_call input_data)) = url_host (call_url health_call)
   \<and> url_port (call_url (langgraph_call input_data)) = ''2024''
   \<and> url_port (call_url health_call) = ''80''"
  by (simp add: langgraph_call_def health_call_def langgraphUrl_def healthUrl_def
      url_host_def url_port_def url_authority_def)

section \<open>Properties of \<open>invoke_many\<close>\<close>

lemma length_foldl_complete:
  "length (foldl (complete invoke requests) slots order) = length slots"
  by (induction order arbitrary: slots) (simp_all add: complete_def)

lemma foldl_complete_nth:
  assumes "length slots = length requests" and "i < length requests"
  shows "foldl (complete invoke requests) slots order ! i =
    (if i \<in> set order then Some (invoke (requests ! i)) else slots ! i)"
  using assms
proof (induction order arbitrary: slots)
  case Nil
  then show ?case by simp
next
  case (Cons j order)
  have "length (complete invoke requests slots j) = length requests"
    using Cons.prems(1) by (simp add: complete_def)
  from Cons.IH [OF this Cons.prems(2)] Cons.prems show ?case
    by (auto simp: complete_def nth_list_update)
qed

text \<open>
  C6. Whatever the order in which the invocations complete, as long as every
  invocation completes once, \<open>invoke_many\<close> returns, and what it returns holds one
  result per request, the result of the request at a position standing at that position.
\<close>

theorem invoke_many_positional:
  assumes "distinct order" and "set order = {0..<length requests}"
  shows "invoke_many invoke requests order = Some (map invoke requests)"
proof -
  let ?slots = "foldl (complete invoke requests) (dispatch requests) order"
  have len: "length ?slots = length requests"
    by (simp add: length_foldl_complete dispatch_def)
  have nth: "?slots ! i = Some (invoke (requests ! i))" if "i < length requests" for i
    using foldl_complete_nth [of "dispatch requests" requests i invoke order] that assms(2)
    by (simp add: dispatch_def)
  have "?slots = map (\<lambda>q. Some (invoke q)) requests"
    using len nth by (intro nth_equalityI) simp_all
  then show ?thesis
    by (simp add: invoke_many_def list_all_iff comp_def)
qed

theorem invoke_many_positional_witness:
  "distinct [2, 0, 1 :: nat] \<and> set [2, 0, 1 :: nat] = {0..<length [''a'', ''b'', ''c'']}
   \<and> invoke_many (\<lambda>q. q @ ''!'') [''a'', ''b'', ''c''] [2, 0, 1] = Some [''a!'', ''b!'', ''c!'']"
proof -
  have d: "distinct [2, 0, 1 :: nat]" by simp
  have s: "set [2, 0, 1 :: nat] = {0..<length [''a'', ''b'', ''c'']}" by auto
  from invoke_many_positional [OF d s, of "\<lambda>q. q @ ''!''"] d s show ?thesis by simp
qed

section \<open>Properties of the chat component\<close>

text \<open>
  C10 (as amended). A call of \<open>sendMessage\<close> with an input that is empty once trimmed,
  or while a reply is pending, changes nothing: the list of messages, the input and
  \<open>isTyping\<close> stay as they were. Any other call appends one message of the user, the
  trimmed input, and then one message of the assistant, whether the exchange with the
  backend succeeds or throws; after it \<open>isTyping\<close> is false and the input is empty.
  In both cases the old list is a prefix of the new one: no entry is rewritten.
\<close>

theorem sendMessage_effect:
  "(trim (userInput this) = [] \<or> isTyping this \<longrightarrow> sendMessage rt fetch p this = this)
   \<and> (trim (userInput this) \<noteq> [] \<and> \<not> isTyping this \<longrightarrow>
        (\<exists>reply. sendMessage rt fetch p this =
           this\<lparr>messages := messages this @
                   [\<lparr>sender = ''user'', msg_text = JStr (trim (userInput this))\<rparr>,
                    \<lparr>sender = ''ai'', msg_text = reply\<rparr>],
                 userInput := [], isTyping := False\<rparr>))"
proof (cases "ask_backend fetch p (trim (userInput this))")
  case (Inl error)
  then have "trim (userInput this) \<noteq> [] \<and> \<not> isTyping this \<longrightarrow>
      sendMessage rt fetch p this =
        this\<lparr>messages := messages this @
                [\<lparr>sender = ''user'', msg_text = JStr (trim (userInput this))\<rparr>,
                 \<lparr>sender = ''ai'',
                  msg_text = JStr (apology_prefix @ err_message rt error)\<rparr>],
              userInput := [], isTyping := False\<rparr>"
    by (simp add: sendMessage_def Let_def)
  then show ?thesis by (auto simp: sendMessage_def Let_def)
next
  case (Inr reply)
  then have "trim (userInput this) \<noteq> [] \<and> \<not> isTyping this \<longrightarrow>
      sendMessage rt fetch p this =
        this\<lparr>messages := messages this @
                [\<lparr>sender = ''user'', msg_text = JStr (trim (userInput this))\<rparr>,
                 \<lparr>sender = ''ai'', msg_text = reply\<rparr>],
              userInput := [], isTyping := False\<rparr>"
    by (simp add: sendMessage_def Let_def)
  then show ?thesis by (auto simp: sendMessage_def Let_def)
qed

theorem sendMessage_effect_witness:
  "trim ''  hello '' = ''hello''
   \<and> (\<exists>reply. sendMessage
        \<lparr>gt_zero = (\<lambda>v. Inr False), minus_one_key = (\<lambda>v. Inr ''NaN''),
         type_error_message = (\<lambda>site. site)\<rparr>
        (\<lambda>call. Inl (Error None ''Failed to fetch''))
        \<lparr>selectedSubModel = JNull, selectedRegion = JStr ''Hunan'', drivingDatasets = JArr []\<rparr>
        (data\<lparr>userInput := ''  hello ''\<rparr>) =
      data\<lparr>messages := messages data @
              [\<lparr>sender = ''user'', msg_text = JStr ''hello''\<rparr>,
               \<lparr>sender = ''ai'', msg_text = reply\<rparr>]\<rparr>)"
proof -
  have t: "trim ''  hello '' = ''hello''" by code_simp
  from sendMessage_effect
    [of "data\<lparr>userInput := ''  hello ''\<rparr>"
        "\<lparr>gt_zero = (\<lambda>v. Inr False), minus_one_key = (\<lambda>v. Inr ''NaN''),
         type_error_message = (\<lambda>site. site)\<rparr>"
        "\<lambda>call. Inl (Error None ''Failed to fetch'')"
        "\<lparr>selectedSubModel = JNull, selectedRegion = JStr ''Hunan'', drivingDatasets = JArr []\<rparr>"]
    t
  show ?thesis by (simp add: data_def)
qed

text \<open>
  The claim as first stated has \<open>isTyping\<close> false and the input cleared after every
  call. A call on an input of three spaces returns at the guard and leaves the three
  spaces in the input; a call made while a reply is pending returns at the guard and
  leaves \<open>isTyping\<close> true.
\<close>

theorem sendMessage_blank_input_counterexample:
  "userInput (sendMessage
        \<lparr>gt_zero = (\<lambda>v. Inr False), minus_one_key = (\<lambda>v. Inr ''NaN''),
         type_error_message = (\<lambda>site. site)\<rparr>
        (\<lambda>call. Inl (Error None ''Failed to fetch''))
        \<lparr>selectedSubModel = JNull, selectedRegion = JStr ''Hunan'', drivingDatasets = JArr []\<rparr>
        (data\<lparr>userInput := ''   ''\<rparr>)) = ''   ''
   \<and> isTyping (sendMessage
        \<lparr>gt_zero = (\<lambda>v. Inr False), minus_one_key = (\<lambda>v. Inr ''NaN''),
         type_error_message = (\<lambda>site. site)\<rparr>
        (\<lambda>call. Inl (Error None ''Failed to fetch''))
        \<lparr>selectedSubModel = JNull, selectedRegion = JStr ''Hunan'', drivingDatasets = JArr []\<rparr>
        (data\<lparr>userInput := ''hello'', isTyping := True\<rparr>))"
proof -
  have "trim ''   '' = []" by code_simp
  then show ?thesis by (simp add: sendMessage_def data_def)
qed

end
